theory Spec2Isabelle
  imports Complex_Main
begin

section \<open>Common Python values\<close>

text \<open>
  Python floats are modelled as \<^typ>\<open>real\<close>: every comparison of the classification
  rules is then the mathematical comparison, without rounding and without NaN.
  An exception is a value carrying its class name and its message (\<open>str(e)\<close>); only
  subclasses of \<open>Exception\<close> are represented, which is what \<open>except Exception\<close> catches.
\<close>

datatype py_exception = PyException (exc_class: string) (exc_msg: string)

type_synonym point = "real \<times> real"

section \<open>TextureAnalyzer\<close>

text \<open>\<open>texture_analyzer.py\<close>, \<open>_determine_texture_type\<close> (lines 119-147).\<close>

definition determine_texture_type :: "real \<Rightarrow> real \<Rightarrow> real \<Rightarrow> real \<Rightarrow> string" where
  "determine_texture_type roughness uniformity_val contrast directionality =
     (if roughness < 10 then
        (if uniformity_val > 0.5 then ''Smooth'' else ''Matte'')
      else if roughness < 30 then
        (if directionality > 0.5 then ''Striated'' else ''Textured'')
      else
        (if contrast > 0.3 then ''Rough'' else ''Coarse''))"

section \<open>ShapeDetector\<close>

text \<open>
  \<open>np.min(contour, axis=0)\<close> and \<open>np.max(contour, axis=0)\<close> of an \<open>(n, 2)\<close> array: the
  column-wise extrema. On an array without rows numpy raises \<open>ValueError\<close>.
\<close>

fun bounding_box :: "point list \<Rightarrow> py_exception + (point \<times> point)" where
  "bounding_box [] =
     Inl (PyException ''ValueError'' ''zero-size array to reduction operation minimum which has no identity'')"
| "bounding_box (p # ps) =
     Inr ((fold min (map fst ps) (fst p), fold min (map snd ps) (snd p)),
          (fold max (map fst ps) (fst p), fold max (map snd ps) (snd p)))"

text \<open>\<open>width / height if height > 0 else 0\<close> (lines 136-140 and 205-207).\<close>

definition aspect_of_box :: "point \<times> point \<Rightarrow> real" where
  "aspect_of_box b =
     (case b of ((x_min, y_min), (x_max, y_max)) \<Rightarrow>
        (let width = x_max - x_min; height = y_max - y_min
         in if height > 0 then width / height else 0))"

text \<open>\<open>shape_detector.py\<close>, \<open>_identify_shape\<close> (lines 181-220).\<close>

definition identify_shape :: "point list \<Rightarrow> real \<Rightarrow> py_exception + string" where
  "identify_shape contour compactness =
     (let vertices = length contour in
      if compactness > 0.8 then Inr ''Circle''
      else if vertices = 3 then Inr ''Triangle''
      else if vertices = 4 then
        (case bounding_box contour of
           Inl e \<Rightarrow> Inl e
         | Inr b \<Rightarrow>
            (let aspect_ratio = aspect_of_box b
             in if 0.9 < aspect_ratio \<and> aspect_ratio < 1.1 then Inr ''Square''
                else Inr ''Rectangle''))
      else if vertices = 5 then Inr ''Pentagon''
      else if vertices = 6 then Inr ''Hexagon''
      else if vertices > 6 \<and> vertices < 15 then Inr ''Polygon''
      else Inr ''Organic'')"

text \<open>
  The bounding-box aspect ratio as the specification words it: extent of the first
  coordinate over extent of the second, and 0 when the second extent is not positive.
\<close>

definition bbox_aspect_ratio :: "point list \<Rightarrow> real" where
  "bbox_aspect_ratio contour =
     (let width = Max (fst ` set contour) - Min (fst ` set contour);
          height = Max (snd ` set contour) - Min (snd ` set contour)
      in if height > 0 then width / height else 0)"

section \<open>ModelGenerator\<close>

text \<open>
  The dictionaries exchanged between the stages are records whose fields are optional:
  a field that is \<open>None\<close> is a key the dictionary does not have, which is what the
  \<open>.get(key, default)\<close> reads of \<open>model_generator.py\<close> allow for.
\<close>

record shape_record =
  sr_type :: "string option"
  sr_vertices :: "nat option"
  sr_area :: "real option"
  sr_perimeter :: "real option"
  sr_compactness :: "real option"
  sr_aspect_ratio :: "real option"
  sr_position :: "point option"

record shape_analysis =
  sa_dominant_shapes :: "string list option"
  sa_shape_count :: "nat option"
  sa_has_straight_lines :: "bool option"
  sa_has_curves :: "bool option"
  sa_shape_complexity :: "string option"
  sa_shape_distribution :: "string option"
  sa_shape_details :: "shape_record list option"

record texture_analysis =
  ta_texture_type :: "string option"
  ta_roughness :: "real option"
  ta_uniformity :: "real option"
  ta_contrast :: "real option"
  ta_directionality :: "real option"
  ta_pattern_type :: "string option"
  ta_lbp_histogram :: "real list option"
  ta_hog_features :: "real list option"

record color_analysis =
  ca_hex_colors :: "string list option"
  ca_rgb_values :: "(nat \<times> nat \<times> nat) list option"
  ca_percentages :: "real list option"

record dimensions =
  dim_width :: real
  dim_height :: real
  dim_depth :: real

record detail =
  det_type :: string
  det_description :: string
  det_intensity :: real

record model_params =
  mp_type :: string
  mp_dimensions :: dimensions
  mp_colors :: "(string \<times> string) list"
  mp_materials :: "string list"
  mp_details :: "detail list"

text \<open>\<open>dict.get(key, default)\<close>.\<close>

definition get_or :: "'a option \<Rightarrow> 'a \<Rightarrow> 'a" where
  "get_or v d = (case v of None \<Rightarrow> d | Some x \<Rightarrow> x)"

text \<open>\<open>model_generator.py\<close>, \<open>_determine_model_type\<close> (lines 112-135).\<close>

definition determine_model_type :: "shape_analysis \<Rightarrow> string" where
  "determine_model_type shape_analysis =
     (let dominant_shapes = get_or (sa_dominant_shapes shape_analysis) [''Unknown''] in
      if ''Circle'' \<in> set dominant_shapes \<or> ''Circular'' \<in> set dominant_shapes then ''cylindrical''
      else if ''Rectangle'' \<in> set dominant_shapes \<or> ''Square'' \<in> set dominant_shapes then ''box''
      else if ''Triangle'' \<in> set dominant_shapes then ''pyramid''
      else if ''Polygon'' \<in> set dominant_shapes then ''polyhedron''
      else if ''Organic'' \<in> set dominant_shapes then ''organic''
      else ''generic'')"

text \<open>
  The precedence list as the specification words it: an ordered table of label groups,
  the first group with a label among the dominant shapes decides, and \<open>generic\<close> is
  the answer when no group matches.
\<close>

definition form_type_rules :: "(string list \<times> string) list" where
  "form_type_rules =
     [([''Circle'', ''Circular''], ''cylindrical''),
      ([''Rectangle'', ''Square''], ''box''),
      ([''Triangle''], ''pyramid''),
      ([''Polygon''], ''polyhedron''),
      ([''Organic''], ''organic'')]"

fun first_match :: "(string list \<times> string) list \<Rightarrow> string list \<Rightarrow> string" where
  "first_match [] shapes = ''generic''"
| "first_match ((labels, form) # rules) shapes =
     (if list_ex (\<lambda>l. l \<in> set shapes) labels then form else first_match rules shapes)"

text \<open>
  Python's \<open>max(iterable, key=...)\<close> on a non-empty sequence: the first element whose key
  is not exceeded, since the running maximum is replaced on a strictly greater key only.
\<close>

fun py_max_key :: "('a \<Rightarrow> real) \<Rightarrow> 'a \<Rightarrow> 'a list \<Rightarrow> 'a" where
  "py_max_key key best [] = best"
| "py_max_key key best (x # xs) = py_max_key key (if key x > key best then x else best) xs"

definition area_key :: "shape_record \<Rightarrow> real" where
  "area_key x = get_or (sr_area x) 0"

text \<open>\<open>model_generator.py\<close>, \<open>_generate_dimensions\<close> (lines 137-178).\<close>

definition generate_dimensions :: "shape_analysis \<Rightarrow> dimensions" where
  "generate_dimensions shape_analysis =
     (let dimensions = \<lparr>dim_width = 1, dim_height = 1, dim_depth = 1\<rparr>;
          shapes = get_or (sa_shape_details shape_analysis) []
      in case shapes of
           [] \<Rightarrow> dimensions
         | s # rest \<Rightarrow>
            (let largest_shape = py_max_key area_key s rest;
                 aspect_ratio = get_or (sr_aspect_ratio largest_shape) 1;
                 dimensions =
                   (if aspect_ratio > 1
                    then dimensions\<lparr>dim_width := min 2 aspect_ratio, dim_height := 1\<rparr>
                    else dimensions\<lparr>dim_width := 1,
                           dim_height := min 2 (if aspect_ratio > 0 then 1 / aspect_ratio else 1)\<rparr>);
                 shape_type = get_or (sr_type largest_shape) []
             in if shape_type \<in> set [''Circle'', ''Square'']
                then dimensions\<lparr>dim_depth := dim_width dimensions\<rparr>
                else dimensions\<lparr>dim_depth := dim_width dimensions * 0.5\<rparr>))"

subsection \<open>Colours\<close>

text \<open>
  Python's \<open>int(s, 16)\<close> on a string: white space around the literal is skipped, a sign
  and a \<open>0x\<close> prefix are optional, and the digits may be separated by single
  underscores. Strings are taken over the code points 0 to 255; \<open>None\<close> stands for the
  \<open>ValueError\<close> that \<open>int\<close> raises. The white space of \<open>int\<close> is tab to carriage return,
  the space, and the two spaces of Latin-1 above 127 (next line and no-break space); the
  separators 28 to 31, which \<open>str.isspace\<close> accepts, are no white space here.
\<close>

definition hex_digit_value :: "char \<Rightarrow> nat option" where
  "hex_digit_value c =
     (let n = (of_char c :: nat) in
      if 48 \<le> n \<and> n \<le> 57 then Some (n - 48)
      else if 97 \<le> n \<and> n \<le> 102 then Some (n - 87)
      else if 65 \<le> n \<and> n \<le> 70 then Some (n - 55)
      else None)"

definition py_isspace :: "char \<Rightarrow> bool" where
  "py_isspace c =
     (let n = (of_char c :: nat) in
      (9 \<le> n \<and> n \<le> 13) \<or> n = 32 \<or> n = 133 \<or> n = 160)"

text \<open>
  The digits of a literal, most significant first, with the value accumulated so far and
  whether the previous character was a digit: an underscore has to stand between two
  digits.
\<close>

fun hex_digits_value :: "string \<Rightarrow> nat \<Rightarrow> bool \<Rightarrow> nat option" where
  "hex_digits_value [] acc prev_digit = (if prev_digit then Some acc else None)"
| "hex_digits_value (c # cs) acc prev_digit =
     (if c = CHR ''_'' then
        (if prev_digit then hex_digits_value cs acc False else None)
      else
        (case hex_digit_value c of
           None \<Rightarrow> None
         | Some d \<Rightarrow> hex_digits_value cs (16 * acc + d) True))"

definition py_int16 :: "string \<Rightarrow> int option" where
  "py_int16 s =
     (let s1 = rev (dropWhile py_isspace (rev (dropWhile py_isspace s)));
          negative = (case s1 of c # _ \<Rightarrow> c = CHR ''-'' | [] \<Rightarrow> False);
          s2 = (case s1 of c # cs \<Rightarrow> if c = CHR ''+'' \<or> c = CHR ''-'' then cs else s1 | [] \<Rightarrow> s1);
          s3 = (case s2 of
                  c # x # cs \<Rightarrow>
                    if c = CHR ''0'' \<and> (x = CHR ''x'' \<or> x = CHR ''X'')
                    then (case cs of u # cs' \<Rightarrow> if u = CHR ''_'' then cs' else cs | [] \<Rightarrow> cs)
                    else s2
                | _ \<Rightarrow> s2)
      in case hex_digits_value s3 0 False of
           None \<Rightarrow> None
         | Some v \<Rightarrow> Some (if negative then - int v else int v))"

text \<open>\<open>tuple(int(h[i:i+2], 16) for i in (0, 2, 4))\<close>: the slices are taken in order and the
  first one that is no literal raises.\<close>

definition value_error :: py_exception where
  "value_error = PyException ''ValueError'' ''invalid literal for int() with base 16''"

definition parse_rgb :: "string \<Rightarrow> py_exception + (int \<times> int \<times> int)" where
  "parse_rgb h =
     (case py_int16 (take 2 h) of
        None \<Rightarrow> Inl value_error
      | Some r \<Rightarrow>
         (case py_int16 (take 2 (drop 2 h)) of
            None \<Rightarrow> Inl value_error
          | Some g \<Rightarrow>
             (case py_int16 (take 2 (drop 4 h)) of
                None \<Rightarrow> Inl value_error
              | Some b \<Rightarrow> Inr (r, g, b))))"

text \<open>\<open>s.lstrip('#')\<close>.\<close>

definition lstrip_hash :: "string \<Rightarrow> string" where
  "lstrip_hash s = dropWhile (\<lambda>c. c = CHR ''#'') s"

text \<open>The dictionary \<open>color_names\<close> of \<open>_process_colors\<close>, in insertion order.\<close>

definition color_names :: "(string \<times> string) list" where
  "color_names =
     [(''#FF0000'', ''Red''), (''#00FF00'', ''Green''), (''#0000FF'', ''Blue''),
      (''#FFFF00'', ''Yellow''), (''#FF00FF'', ''Magenta''), (''#00FFFF'', ''Cyan''),
      (''#000000'', ''Black''), (''#FFFFFF'', ''White''), (''#808080'', ''Gray'')]"

text \<open>
  The loop of \<open>_find_closest_color_name\<close> (lines 239-251). \<open>min_distance\<close> is \<open>None\<close>
  while it is \<open>float('inf')\<close>.
\<close>

fun closest_loop ::
  "int \<times> int \<times> int \<Rightarrow> (string \<times> string) list \<Rightarrow> real option \<Rightarrow> string \<Rightarrow> py_exception + string"
where
  "closest_loop rgb [] min_distance closest_name = Inr closest_name"
| "closest_loop rgb ((hex_code, name) # rest) min_distance closest_name =
     (case parse_rgb (lstrip_hash hex_code) of
        Inl e \<Rightarrow> Inl e
      | Inr (r2, g2, b2) \<Rightarrow>
         (case rgb of (r, g, b) \<Rightarrow>
            (let distance = sqrt (real_of_int ((r - r2)\<^sup>2 + (g - g2)\<^sup>2 + (b - b2)\<^sup>2))
             in if (case min_distance of None \<Rightarrow> True | Some m \<Rightarrow> distance < m)
                then closest_loop rgb rest (Some distance) name
                else closest_loop rgb rest min_distance closest_name)))"

text \<open>\<open>model_generator.py\<close>, \<open>_find_closest_color_name\<close> (lines 220-253).\<close>

definition find_closest_color_name ::
  "string \<Rightarrow> (string \<times> string) list \<Rightarrow> py_exception + string" where
  "find_closest_color_name hex_color color_map =
     (case map_of color_map hex_color of
        Some name \<Rightarrow> Inr name
      | None \<Rightarrow>
         (case parse_rgb (lstrip_hash hex_color) of
            Inl e \<Rightarrow> Inl e
          | Inr rgb \<Rightarrow> closest_loop rgb color_map None ''Custom''))"

text \<open>The loop of \<open>_process_colors\<close> (lines 209-216) over \<open>hex_colors[:3]\<close>.\<close>

fun process_loop :: "string list \<Rightarrow> py_exception + (string \<times> string) list" where
  "process_loop [] = Inr []"
| "process_loop (hex_color # rest) =
     (case find_closest_color_name hex_color color_names of
        Inl e \<Rightarrow> Inl e
      | Inr color_name \<Rightarrow>
         (case process_loop rest of
            Inl e \<Rightarrow> Inl e
          | Inr processed \<Rightarrow> Inr ((hex_color, color_name) # processed)))"

text \<open>\<open>model_generator.py\<close>, \<open>_process_colors\<close> (lines 180-218).\<close>

definition process_colors :: "color_analysis \<Rightarrow> py_exception + (string \<times> string) list" where
  "process_colors color_analysis =
     (let hex_colors = get_or (ca_hex_colors color_analysis) []
      in process_loop (take 3 hex_colors))"

subsection \<open>Materials and details\<close>

text \<open>\<open>model_generator.py\<close>, \<open>_suggest_materials\<close> (lines 255-290).\<close>

definition suggest_materials :: "texture_analysis \<Rightarrow> string list" where
  "suggest_materials texture_analysis =
     (let texture_type = get_or (ta_texture_type texture_analysis) ''Unknown'';
          pattern_type = get_or (ta_pattern_type texture_analysis) ''Unknown'';
          suggested_materials =
            (if texture_type = ''Smooth'' then [''Glass'', ''Polished Metal'', ''Plastic'']
             else if texture_type = ''Matte'' then [''Matte Plastic'', ''Rubber'', ''Fabric'']
             else if texture_type = ''Rough'' then [''Stone'', ''Concrete'', ''Wood'']
             else if texture_type = ''Textured'' then [''Textured Plastic'', ''Leather'', ''Canvas'']
             else [''Plastic'']);
          suggested_materials =
            (if pattern_type = ''Geometric'' then suggested_materials @ [''3D Printed Polymer'']
             else if pattern_type = ''Organic'' then suggested_materials @ [''Natural Wood'']
             else suggested_materials)
      in take 3 suggested_materials)"

text \<open>\<open>model_generator.py\<close>, \<open>_generate_details\<close> (lines 292-350).\<close>

definition generate_details :: "shape_analysis \<Rightarrow> texture_analysis \<Rightarrow> detail list" where
  "generate_details shape_analysis texture_analysis =
     (let complexity = get_or (sa_shape_complexity shape_analysis) ''Low'';
          details =
            (if complexity = ''High'' then
               [\<lparr>det_type = ''surface_detail'', det_description = ''Complex surface patterns'',
                 det_intensity = 0.8\<rparr>]
             else if complexity = ''Medium'' then
               [\<lparr>det_type = ''surface_detail'', det_description = ''Moderate surface patterns'',
                 det_intensity = 0.5\<rparr>]
             else []);
          texture_type = get_or (ta_texture_type texture_analysis) ''Unknown'';
          details =
            (if texture_type = ''Rough'' then
               details @ [\<lparr>det_type = ''roughness'', det_description = ''Rough surface texture'',
                            det_intensity = 0.7\<rparr>]
             else if texture_type = ''Textured'' then
               details @ [\<lparr>det_type = ''bump_map'', det_description = ''Textured surface'',
                            det_intensity = 0.6\<rparr>]
             else details);
          pattern_type = get_or (ta_pattern_type texture_analysis) ''Unknown''
      in if pattern_type = ''Geometric'' then
           details @ [\<lparr>det_type = ''geometric_pattern'',
                        det_description = ''Geometric surface pattern'', det_intensity = 0.5\<rparr>]
         else if pattern_type = ''Organic'' then
           details @ [\<lparr>det_type = ''organic_pattern'',
                        det_description = ''Organic surface pattern'', det_intensity = 0.6\<rparr>]
         else details)"

subsection \<open>Model parameters\<close>

text \<open>
  The \<open>try\<close> block of \<open>generate_model_parameters\<close> (lines 86-101). The entries of the
  dictionary are evaluated in order; only the colours can raise.
  \<open>extract_features\<close> catches every exception itself and its result is not used, so
  it does not appear.
\<close>

definition model_parameters_body ::
  "shape_analysis \<Rightarrow> color_analysis \<Rightarrow> texture_analysis \<Rightarrow> py_exception + model_params" where
  "model_parameters_body shape_analysis color_analysis texture_analysis =
     (case process_colors color_analysis of
        Inl e \<Rightarrow> Inl e
      | Inr colors \<Rightarrow>
         Inr \<lparr>mp_type = determine_model_type shape_analysis,
              mp_dimensions = generate_dimensions shape_analysis,
              mp_colors = colors,
              mp_materials = suggest_materials texture_analysis,
              mp_details = generate_details shape_analysis texture_analysis\<rparr>)"

text \<open>\<open>model_generator.py\<close>, \<open>generate_model_parameters\<close> (lines 72-110): the \<open>try\<close>
  block, and the dictionary of the \<open>except Exception\<close> branch.\<close>

definition generate_model_parameters ::
  "shape_analysis \<Rightarrow> color_analysis \<Rightarrow> texture_analysis \<Rightarrow> model_params" where
  "generate_model_parameters shape_analysis color_analysis texture_analysis =
     (case model_parameters_body shape_analysis color_analysis texture_analysis of
        Inr model_params \<Rightarrow> model_params
      | Inl e \<Rightarrow>
         \<lparr>mp_type = ''basic_cube'',
          mp_dimensions = \<lparr>dim_width = 1, dim_height = 1, dim_depth = 1\<rparr>,
          mp_colors = [(''#CCCCCC'', ''Gray'')],
          mp_materials = [''Plastic''],
          mp_details = []\<rparr>)"

text \<open>The analysis results of the module's own example (lines 390-406).\<close>

definition example_shape_analysis :: shape_analysis where
  "example_shape_analysis =
     \<lparr>sa_dominant_shapes = Some [''Rectangle'', ''Circle''],
      sa_shape_count = None, sa_has_straight_lines = None, sa_has_curves = None,
      sa_shape_complexity = Some ''Medium'', sa_shape_distribution = None,
      sa_shape_details =
        Some [\<lparr>sr_type = Some ''Rectangle'', sr_vertices = None, sr_area = Some 10000,
               sr_perimeter = None, sr_compactness = None, sr_aspect_ratio = Some 1.5,
               sr_position = None\<rparr>]\<rparr>"

text \<open>
  A profile with two records, the smaller one first: a circle of area 100 and aspect
  ratio 0.5, then a rectangle of area 10000 and aspect ratio 1.5. And the same profile
  with the circle alone.
\<close>

definition two_shapes :: shape_analysis where
  "two_shapes =
     example_shape_analysis
       \<lparr>sa_shape_details :=
          Some [\<lparr>sr_type = Some ''Circle'', sr_vertices = None, sr_area = Some 100,
                 sr_perimeter = None, sr_compactness = None, sr_aspect_ratio = Some 0.5,
                 sr_position = None\<rparr>,
                \<lparr>sr_type = Some ''Rectangle'', sr_vertices = None, sr_area = Some 10000,
                 sr_perimeter = None, sr_compactness = None, sr_aspect_ratio = Some 1.5,
                 sr_position = None\<rparr>]\<rparr>"

definition one_circle :: shape_analysis where
  "one_circle =
     example_shape_analysis
       \<lparr>sa_shape_details :=
          Some [\<lparr>sr_type = Some ''Circle'', sr_vertices = None, sr_area = Some 100,
                 sr_perimeter = None, sr_compactness = None, sr_aspect_ratio = Some 0.5,
                 sr_position = None\<rparr>]\<rparr>"

text \<open>
  Two palettes whose only entry is no hexadecimal colour: a colour name, and a colour
  whose first pair of characters ends with the unit separator (code point 31).
\<close>

definition named_palette :: color_analysis where
  "named_palette = \<lparr>ca_hex_colors = Some [''red''], ca_rgb_values = None, ca_percentages = None\<rparr>"

definition separator_palette :: color_analysis where
  "separator_palette =
     \<lparr>ca_hex_colors = Some [''#1'' @ [CHR 0x1F] @ ''0000''], ca_rgb_values = None,
      ca_percentages = None\<rparr>"

definition example_color_analysis :: color_analysis where
  "example_color_analysis =
     \<lparr>ca_hex_colors = Some [''#3F51B5'', ''#F44336'', ''#4CAF50''],
      ca_rgb_values = None, ca_percentages = None\<rparr>"

definition example_texture_analysis :: texture_analysis where
  "example_texture_analysis =
     \<lparr>ta_texture_type = Some ''Smooth'', ta_roughness = Some 5, ta_uniformity = None,
      ta_contrast = None, ta_directionality = None, ta_pattern_type = Some ''Geometric'',
      ta_lbp_histogram = None, ta_hog_features = None\<rparr>"

section \<open>ShapeDetector: contours, lines, circles\<close>

text \<open>
  What the image libraries hand to \<open>shape_detector.py\<close> is a parameter of the model: for
  each contour of \<open>find_contours\<close> its number of points, the polygon of
  \<open>approximate_polygon\<close>, and that polygon's \<open>cv2.contourArea\<close> and \<open>cv2.arcLength\<close>;
  the peaks of the Hough line transform as (angle, distance); and the result of
  \<open>cv2.HoughCircles\<close>, \<open>None\<close> when no circle was found.
\<close>

record contour_meas =
  cm_points :: nat
  cm_approx :: "point list"
  cm_area :: real
  cm_perimeter :: real

record shape_measurement =
  sm_contours :: "contour_meas list"
  sm_line_peaks :: "(real \<times> real) list"
  sm_circles :: "(int \<times> int \<times> int) list option"

record shape_info =
  si_shapes :: "shape_record list"
  si_complexity :: string
  si_distribution :: string

record line_info =
  li_lines :: "(real \<times> real \<times> string) list"
  li_has_straight_lines :: bool
  li_line_count :: nat
  li_dominant_orientation :: string

record circle_info =
  ci_circles :: "((int \<times> int) \<times> int) list"
  ci_has_circles :: bool
  ci_circle_count :: nat

text \<open>\<open>np.mean\<close> of a column; it is applied to polygons with at least one point only.\<close>

definition np_mean :: "real list \<Rightarrow> real" where
  "np_mean xs = sum_list xs / real (length xs)"

text \<open>The loop of \<open>_analyze_contours\<close> (lines 111-156) with its two accumulators.\<close>

fun analyze_loop ::
  "contour_meas list \<Rightarrow> shape_record list \<Rightarrow> real \<Rightarrow> py_exception + (shape_record list \<times> real)"
where
  "analyze_loop [] shapes covered_area = Inr (shapes, covered_area)"
| "analyze_loop (contour # contours) shapes covered_area =
     (if cm_points contour < 5 then analyze_loop contours shapes covered_area
      else if cm_area contour < 100 then analyze_loop contours shapes covered_area
      else
        (case identify_shape (cm_approx contour)
                (if cm_perimeter contour > 0
                 then (4 * pi * cm_area contour) / (cm_perimeter contour)\<^sup>2 else 0) of
           Inl e \<Rightarrow> Inl e
         | Inr shape_type \<Rightarrow>
            (case bounding_box (cm_approx contour) of
               Inl e \<Rightarrow> Inl e
             | Inr b \<Rightarrow>
                analyze_loop contours
                  (shapes @
                   [\<lparr>sr_type = Some shape_type,
                     sr_vertices = Some (length (cm_approx contour)),
                     sr_area = Some (cm_area contour),
                     sr_perimeter = Some (cm_perimeter contour),
                     sr_compactness =
                       Some (if cm_perimeter contour > 0
                             then (4 * pi * cm_area contour) / (cm_perimeter contour)\<^sup>2 else 0),
                     sr_aspect_ratio = Some (aspect_of_box b),
                     sr_position =
                       Some (np_mean (map fst (cm_approx contour)),
                             np_mean (map snd (cm_approx contour)))\<rparr>])
                  (covered_area + cm_area contour))))"

text \<open>\<open>shape_detector.py\<close>, \<open>_analyze_contours\<close> (lines 96-179).\<close>

definition analyze_contours :: "contour_meas list \<Rightarrow> nat \<times> nat \<Rightarrow> py_exception + shape_info" where
  "analyze_contours contours image_shape =
     (let total_area = fst image_shape * snd image_shape in
      case analyze_loop contours [] 0 of
        Inl e \<Rightarrow> Inl e
      | Inr (shapes, covered_area) \<Rightarrow>
         (let complexity =
                (if length shapes < 3 then ''Low''
                 else if length shapes < 10 then ''Medium''
                 else ''High'')
          in if total_area = 0 then Inl (PyException ''ZeroDivisionError'' ''division by zero'')
             else
               (let coverage_ratio = covered_area / real total_area;
                    distribution =
                      (if coverage_ratio < 0.2 then ''Sparse''
                       else if coverage_ratio < 0.5 then ''Moderate''
                       else ''Dense'')
                in Inr \<lparr>si_shapes = shapes, si_complexity = complexity,
                         si_distribution = distribution\<rparr>)))"

text \<open>\<open>shape_detector.py\<close>, \<open>_get_dominant_orientation\<close> (lines 263-283): \<open>max\<close> over the
  three counts in the order Horizontal, Vertical, Diagonal, the first maximum winning.\<close>

definition get_dominant_orientation :: "(real \<times> real \<times> string) list \<Rightarrow> string" where
  "get_dominant_orientation lines =
     (if lines = [] then ''None''
      else
        (let orientations = map (\<lambda>l. snd (snd l)) lines;
             count = (\<lambda>k. real (count_list orientations k))
         in py_max_key count ''Horizontal'' [''Vertical'', ''Diagonal'']))"

text \<open>\<open>shape_detector.py\<close>, \<open>_detect_lines\<close> (lines 239-261), from the peaks.\<close>

definition detect_lines :: "(real \<times> real) list \<Rightarrow> line_info" where
  "detect_lines peaks =
     (let lines =
            map (\<lambda>(angle, dist).
                   (angle, dist,
                    if \<bar>angle\<bar> < 0.1 \<or> \<bar>angle - pi / 2\<bar> < 0.1 then ''Vertical''
                    else if \<bar>angle - pi / 4\<bar> < 0.1 \<or> \<bar>angle + pi / 4\<bar> < 0.1 then ''Diagonal''
                    else ''Horizontal''))
                peaks
      in \<lparr>li_lines = lines, li_has_straight_lines = (length lines > 0),
           li_line_count = length lines,
           li_dominant_orientation = get_dominant_orientation lines\<rparr>)"

text \<open>\<open>shape_detector.py\<close>, \<open>_detect_circles\<close> (lines 307-327), from the result of
  \<open>cv2.HoughCircles\<close> after rounding.\<close>

definition detect_circles :: "(int \<times> int \<times> int) list option \<Rightarrow> circle_info" where
  "detect_circles circles =
     (case circles of
        Some cs \<Rightarrow>
          \<lparr>ci_circles = map (\<lambda>(x, y, r). ((x, y), r)) cs, ci_has_circles = True,
           ci_circle_count = length cs\<rparr>
      | None \<Rightarrow> \<lparr>ci_circles = [], ci_has_circles = False, ci_circle_count = 0\<rparr>)"

text \<open>The counting loop of \<open>_determine_dominant_shapes\<close> (lines 347-351): a dictionary
  in insertion order.\<close>

fun count_shape :: "string \<Rightarrow> (string \<times> nat) list \<Rightarrow> (string \<times> nat) list" where
  "count_shape shape_type [] = [(shape_type, 1)]"
| "count_shape shape_type ((k, n) # rest) =
     (if k = shape_type then (k, n + 1) # rest else (k, n) # count_shape shape_type rest)"

text \<open>\<open>sorted(items, key=lambda x: x[1], reverse=True)\<close>: descending and stable, entries
  of equal count keep their order.\<close>

definition sorted_by_count_desc :: "(string \<times> nat) list \<Rightarrow> (string \<times> nat) list" where
  "sorted_by_count_desc items = rev (sort_key snd (rev items))"

text \<open>
  \<open>shape_detector.py\<close>, \<open>_determine_dominant_shapes\<close> (lines 329-376).
  \<open>shape['type']\<close> raises \<open>KeyError\<close> on a record without that key.
\<close>

definition determine_dominant_shapes ::
  "shape_info \<Rightarrow> line_info \<Rightarrow> circle_info \<Rightarrow> py_exception + string list" where
  "determine_dominant_shapes shape_info line_info circle_info =
     (case those (map sr_type (si_shapes shape_info)) of
        None \<Rightarrow> Inl (PyException ''KeyError'' ''type'')
      | Some shape_types \<Rightarrow>
         (let shape_counts = fold count_shape shape_types [];
              sorted_shapes = sorted_by_count_desc shape_counts;
              dominant_shapes =
                map fst (filter (\<lambda>(shape_type, count). count > 1) (take 3 sorted_shapes));
              dominant_shapes =
                (if li_has_straight_lines line_info \<and> dominant_shapes = []
                 then dominant_shapes @ [''Geometric''] else dominant_shapes);
              dominant_shapes =
                (if ci_has_circles circle_info \<and> ''Circle'' \<notin> set dominant_shapes
                 then dominant_shapes @ [''Circular''] else dominant_shapes)
          in if dominant_shapes = [] then
               (if si_complexity shape_info = ''High'' then Inr (dominant_shapes @ [''Complex''])
                else Inr (dominant_shapes @ [''Organic'']))
             else Inr dominant_shapes))"

text \<open>The dictionary of the \<open>except Exception\<close> branch of \<open>detect_shapes\<close> (lines 86-94).\<close>

definition failed_shape_analysis :: shape_analysis where
  "failed_shape_analysis =
     \<lparr>sa_dominant_shapes = Some [''Unknown''], sa_shape_count = Some 0,
      sa_has_straight_lines = Some False, sa_has_curves = Some False,
      sa_shape_complexity = Some ''Low'', sa_shape_distribution = Some ''Unknown'',
      sa_shape_details = Some []\<rparr>"

text \<open>
  \<open>shape_detector.py\<close>, \<open>detect_shapes\<close> (lines 26-94). The argument is the outcome of
  the image libraries on the path: the exception one of them raised (also the
  \<open>ValueError\<close> of line 41 for an image that cannot be loaded), or their measurements
  of the 512 by 512 working image.
\<close>

definition detect_shapes :: "py_exception + shape_measurement \<Rightarrow> shape_analysis" where
  "detect_shapes measured =
     (case measured of
        Inl e \<Rightarrow> failed_shape_analysis
      | Inr m \<Rightarrow>
         (case analyze_contours (sm_contours m) (512, 512) of
            Inl e \<Rightarrow> failed_shape_analysis
          | Inr shape_info \<Rightarrow>
             (let line_info = detect_lines (sm_line_peaks m);
                  circle_info = detect_circles (sm_circles m)
              in case determine_dominant_shapes shape_info line_info circle_info of
                   Inl e \<Rightarrow> failed_shape_analysis
                 | Inr dominant_shapes \<Rightarrow>
                    \<lparr>sa_dominant_shapes = Some dominant_shapes,
                     sa_shape_count = Some (length (si_shapes shape_info)),
                     sa_has_straight_lines = Some (li_has_straight_lines line_info),
                     sa_has_curves = Some (ci_has_circles circle_info),
                     sa_shape_complexity = Some (si_complexity shape_info),
                     sa_shape_distribution = Some (si_distribution shape_info),
                     sa_shape_details = Some (take 5 (si_shapes shape_info))\<rparr>)))"

text \<open>
  Two measurements: an image without edges, and an image with two closed rectangular
  contours of 5 by 20 pixels (a closed contour repeats its first point, so the polygon
  has five points), without Hough lines or circles.
\<close>

definition no_edges :: shape_measurement where
  "no_edges = \<lparr>sm_contours = [], sm_line_peaks = [], sm_circles = None\<rparr>"

definition closed_rectangles :: shape_measurement where
  "closed_rectangles =
     \<lparr>sm_contours =
        [\<lparr>cm_points = 50, cm_approx = [(0, 0), (0, 20), (5, 20), (5, 0), (0, 0)],
          cm_area = 100, cm_perimeter = 50\<rparr>,
         \<lparr>cm_points = 50,
          cm_approx = [(100, 100), (100, 120), (105, 120), (105, 100), (100, 100)],
          cm_area = 100, cm_perimeter = 50\<rparr>],
      sm_line_peaks = [], sm_circles = None\<rparr>"

section \<open>ColorExtractor\<close>

text \<open>
  The fitted \<open>KMeans\<close> object is a parameter of the model: \<open>km_colors\<close> is
  \<open>kmeans.cluster_centers_.astype(int)\<close>, a triple of channel values per cluster (the
  centres are means of 8-bit channels, hence natural numbers), and \<open>km_labels\<close> is
  \<open>kmeans.labels_\<close>, the cluster index of every clustered pixel.
\<close>

record kmeans_fit =
  km_colors :: "(nat \<times> nat \<times> nat) list"
  km_labels :: "nat list"

record color_info =
  ci_hex :: "string list"
  ci_rgb :: "(nat \<times> nat \<times> nat) list"
  ci_percentages :: "real list"

text \<open>The format \<open>%02x\<close>: lower-case hexadecimal, padded with zeros to two characters.\<close>

definition hex_char :: "nat \<Rightarrow> char" where
  "hex_char d = ''0123456789abcdef'' ! d"

fun hex_digits :: "nat \<Rightarrow> string" where
  "hex_digits n =
     (if n < 16 then [hex_char n] else hex_digits (n div 16) @ [hex_char (n mod 16)])"

declare hex_digits.simps [simp del]

definition format_02x :: "nat \<Rightarrow> string" where
  "format_02x n =
     (let d = hex_digits n in replicate (2 - length d) (CHR ''0'') @ d)"

definition hex_color_of :: "nat \<times> nat \<times> nat \<Rightarrow> string" where
  "hex_color_of c = (case c of (r, g, b) \<Rightarrow> ''#'' @ format_02x r @ format_02x g @ format_02x b)"

text \<open>\<open>np.bincount(labels)\<close>: one count per index from 0 to the largest label.\<close>

definition bincount :: "nat list \<Rightarrow> nat list" where
  "bincount labels =
     (if labels = [] then []
      else map (\<lambda>i. count_list labels i) [0..<Suc (fold max labels 0)])"

text \<open>\<open>color_counts / len(labels) * 100\<close> (line 69).\<close>

definition color_percentages_of :: "nat list \<Rightarrow> real list" where
  "color_percentages_of labels =
     map (\<lambda>c. real c / real (length labels) * 100) (bincount labels)"

text \<open>
  \<open>np.argsort(a)\<close>: the indices in ascending order of their values. Among equal values
  the order is numpy's choice; the model takes the stable one, which is what numpy's
  default sort does on arrays of up to 16 entries.
\<close>

definition argsort :: "real list \<Rightarrow> nat list" where
  "argsort a = sort_key (\<lambda>i. a ! i) [0..<length a]"

text \<open>
  \<open>color_extractor.py\<close>, \<open>extract_colors\<close> (lines 28-90). The argument is the outcome of
  lines 42-61: the exception raised while opening, resizing or clustering the image, or
  the fitted clustering. The second component of the result is \<open>None\<close> for the empty
  dictionary. An index of \<open>sorted_indices\<close> beyond \<open>hex_colors\<close> raises \<open>IndexError\<close>,
  which the \<open>except\<close> branch turns into the empty result as well.
\<close>

definition extract_colors :: "py_exception + kmeans_fit \<Rightarrow> string list \<times> color_info option" where
  "extract_colors fitted =
     (case fitted of
        Inl e \<Rightarrow> ([], None)
      | Inr kmeans \<Rightarrow>
         (let colors = km_colors kmeans;
              labels = km_labels kmeans;
              color_percentages = color_percentages_of labels;
              hex_colors = map hex_color_of colors;
              color_info = \<lparr>ci_hex = hex_colors, ci_rgb = colors,
                             ci_percentages = color_percentages\<rparr>;
              sorted_indices = rev (argsort color_percentages)
          in if list_all (\<lambda>i. i < length hex_colors) sorted_indices
             then (map (\<lambda>i. hex_colors ! i) sorted_indices, Some color_info)
             else ([], None)))"

text \<open>
  \<open>color_extractor.py\<close>, \<open>get_color_palette\<close> (lines 128-159). \<open>makedirs\<close> is
  \<open>os.makedirs(output_dir, exist_ok=True)\<close>, giving the exception it raises, if any.
  \<open>visualize_colors\<close> catches every exception and does not change the palette.
\<close>

definition get_color_palette ::
  "(string \<Rightarrow> py_exception option) \<Rightarrow> py_exception + kmeans_fit \<Rightarrow> bool \<Rightarrow> string option \<Rightarrow>
     py_exception + color_analysis" where
  "get_color_palette makedirs fitted save_visualization output_dir =
     (case extract_colors fitted of (hex_colors, color_info) \<Rightarrow>
        (case (if save_visualization \<and> hex_colors \<noteq> [] \<and> get_or output_dir [] \<noteq> []
               then makedirs (get_or output_dir []) else None) of
           Some e \<Rightarrow> Inl e
         | None \<Rightarrow>
            Inr \<lparr>ca_hex_colors = Some hex_colors,
                 ca_rgb_values = Some (case color_info of None \<Rightarrow> [] | Some i \<Rightarrow> ci_rgb i),
                 ca_percentages =
                   Some (case color_info of None \<Rightarrow> [] | Some i \<Rightarrow> ci_percentages i)\<rparr>))"

text \<open>
  A clustering into two colours of five opaque pixels, two of them red (cluster 0) and
  three of them blue (cluster 1).
\<close>

definition red_blue_fit :: kmeans_fit where
  "red_blue_fit = \<lparr>km_colors = [(255, 0, 0), (0, 0, 255)], km_labels = [0, 0, 1, 1, 1]\<rparr>"

section \<open>TextureAnalyzer: the analysis\<close>

text \<open>
  What the image libraries measure for \<open>analyze_texture\<close>: the normalised LBP histogram,
  the HOG feature vector, the mean gradient magnitude and the standard deviation of
  the grey levels.
\<close>

record texture_measurement =
  tm_lbp_hist :: "real list"
  tm_hog_features :: "real list"
  tm_roughness :: real
  tm_std :: real

text \<open>\<open>np.std\<close>; like \<open>np_mean\<close> it is meant for arrays with at least one entry.\<close>

definition np_std :: "real list \<Rightarrow> real" where
  "np_std xs = sqrt (np_mean (map (\<lambda>x. (x - np_mean xs)\<^sup>2) xs))"

text \<open>\<open>texture_analyzer.py\<close>, \<open>_determine_pattern_type\<close> (lines 149-184).\<close>

definition determine_pattern_type :: "real list \<Rightarrow> real list \<Rightarrow> string" where
  "determine_pattern_type lbp_hist hog_features =
     (let lbp_entropy = - sum_list (map (\<lambda>p. p * log 2 (p + 1 / 10 ^ 10)) lbp_hist);
          hog_mean = np_mean hog_features;
          hog_std = np_std hog_features
      in if lbp_entropy < 3 then ''Solid''
         else if lbp_entropy < 4 then (if hog_std < 0.1 then ''Uniform'' else ''Gradient'')
         else if lbp_entropy < 5 then (if hog_mean > 0.2 then ''Geometric'' else ''Organic'')
         else (if hog_std > 0.2 then ''Complex'' else ''Random''))"

text \<open>\<open>texture_analyzer.py\<close>, \<open>analyze_texture\<close> (lines 24-117), from the outcome of the
  image libraries on the path.\<close>

definition analyze_texture :: "py_exception + texture_measurement \<Rightarrow> texture_analysis" where
  "analyze_texture measured =
     (case measured of
        Inl e \<Rightarrow>
          \<lparr>ta_texture_type = Some ''unknown'', ta_roughness = Some 0, ta_uniformity = Some 0,
           ta_contrast = Some 0, ta_directionality = Some 0, ta_pattern_type = Some ''unknown'',
           ta_lbp_histogram = None, ta_hog_features = None\<rparr>
      | Inr m \<Rightarrow>
         (let roughness = tm_roughness m;
              uniformity_val = 1 / (1 + tm_std m);
              contrast = tm_std m / 255;
              directionality = np_std (tm_hog_features m);
              texture_type = determine_texture_type roughness uniformity_val contrast directionality;
              pattern_type = determine_pattern_type (tm_lbp_hist m) (tm_hog_features m)
          in \<lparr>ta_texture_type = Some texture_type, ta_roughness = Some roughness,
               ta_uniformity = Some uniformity_val, ta_contrast = Some contrast,
               ta_directionality = Some directionality, ta_pattern_type = Some pattern_type,
               ta_lbp_histogram = Some (tm_lbp_hist m),
               ta_hog_features = Some (take 10 (tm_hog_features m))\<rparr>))"

section \<open>ImageAnalyzer\<close>

text \<open>
  The operating system and the image libraries, as \<open>analyze_image\<close> meets them: whether
  a path exists, the exception \<open>os.makedirs\<close> raises (if any), the listing of a
  directory or the exception of \<open>os.listdir\<close>, the functions of \<open>os.path\<close>, and the
  outcome of the libraries of each analyser on an image path.
\<close>

record environment =
  env_exists :: "string \<Rightarrow> bool"
  env_makedirs :: "string \<Rightarrow> py_exception option"
  env_listdir :: "string \<Rightarrow> py_exception + string list"
  env_basename :: "string \<Rightarrow> string"
  env_splitext :: "string \<Rightarrow> string \<times> string"
  env_join :: "string \<Rightarrow> string \<Rightarrow> string"
  env_cluster :: "string \<Rightarrow> py_exception + kmeans_fit"
  env_texture :: "string \<Rightarrow> py_exception + texture_measurement"
  env_shapes :: "string \<Rightarrow> py_exception + shape_measurement"

record analysis_results =
  ar_image_path :: string
  ar_color_analysis :: color_analysis
  ar_texture_analysis :: texture_analysis
  ar_shape_analysis :: shape_analysis
  ar_model_parameters :: model_params
  ar_output_directory :: string
  ar_visualization_files :: "string list"

record failure =
  fl_error :: string
  fl_image_path :: string
  fl_status :: string

datatype analysis_outcome = Analysis analysis_results | Failed failure

text \<open>\<open>str.endswith\<close>.\<close>

definition endswith :: "string \<Rightarrow> string \<Rightarrow> bool" where
  "endswith s suffix_str =
     (length suffix_str \<le> length s \<and> drop (length s - length suffix_str) s = suffix_str)"

text \<open>\<open>image_analyzer.py\<close>, \<open>_get_visualization_files\<close> (lines 122-138).\<close>

definition get_visualization_files :: "environment \<Rightarrow> string \<Rightarrow> py_exception + string list" where
  "get_visualization_files env directory =
     (case env_listdir env directory of
        Inl e \<Rightarrow> Inl e
      | Inr files \<Rightarrow>
         Inr (map (env_join env directory)
                (filter (\<lambda>file. endswith file ''.png'' \<or> endswith file ''.jpg'' \<or>
                                 endswith file ''.jpeg'') files)))"

text \<open>
  The \<open>try\<close> block of \<open>analyze_image\<close> (lines 50-112). The visualisation writers,
  \<open>generate_model_file\<close> and \<open>_save_analysis_results\<close> catch every exception themselves
  and leave the returned dictionary as it is, so they do not appear.
\<close>

definition analyze_image_body ::
  "environment \<Rightarrow> string \<Rightarrow> string \<Rightarrow> bool \<Rightarrow> py_exception + analysis_results" where
  "analyze_image_body env output_dir image_path generate_visualizations =
     (if \<not> env_exists env image_path then
        Inl (PyException ''FileNotFoundError'' (''Image file not found: '' @ image_path))
      else
        (let base_name = env_basename env image_path;
             file_name = fst (env_splitext env base_name);
             image_output_dir = env_join env output_dir file_name
         in case env_makedirs env image_output_dir of
              Some e \<Rightarrow> Inl e
            | None \<Rightarrow>
               (case get_color_palette (env_makedirs env) (env_cluster env image_path)
                       generate_visualizations (Some image_output_dir) of
                  Inl e \<Rightarrow> Inl e
                | Inr color_palette \<Rightarrow>
                   (let texture_analysis = analyze_texture (env_texture env image_path);
                        shape_analysis = detect_shapes (env_shapes env image_path);
                        model_params =
                          generate_model_parameters shape_analysis color_palette texture_analysis
                    in case (if generate_visualizations
                             then get_visualization_files env image_output_dir else Inr []) of
                         Inl e \<Rightarrow> Inl e
                       | Inr files \<Rightarrow>
                          Inr \<lparr>ar_image_path = image_path,
                               ar_color_analysis = color_palette,
                               ar_texture_analysis = texture_analysis,
                               ar_shape_analysis = shape_analysis,
                               ar_model_parameters = model_params,
                               ar_output_directory = image_output_dir,
                               ar_visualization_files = files\<rparr>))))"

text \<open>\<open>image_analyzer.py\<close>, \<open>analyze_image\<close> (lines 38-120): the \<open>try\<close> block, and the
  dictionary of the \<open>except Exception\<close> branch.\<close>

definition analyze_image :: "environment \<Rightarrow> string \<Rightarrow> string \<Rightarrow> bool \<Rightarrow> analysis_outcome" where
  "analyze_image env output_dir image_path generate_visualizations =
     (case analyze_image_body env output_dir image_path generate_visualizations of
        Inr analysis_results \<Rightarrow> Analysis analysis_results
      | Inl e \<Rightarrow>
         Failed \<lparr>fl_error = exc_msg e, fl_image_path = image_path, fl_status = ''failed''\<rparr>)"

text \<open>
  Four environments for one image \<open>photo.png\<close>. In the first the file exists and the
  output directory can be created and listed (it holds the model file that
  \<open>generate_model_file\<close> has written), but no image library can read the file. In
  the others the file is missing, or the output directory cannot be created, or it
  cannot be listed.
\<close>

definition env_unreadable :: environment where
  "env_unreadable =
     \<lparr>env_exists = (\<lambda>p. True),
      env_makedirs = (\<lambda>p. None),
      env_listdir = (\<lambda>p. Inr [''photo_model.json'']),
      env_basename = (\<lambda>p. p),
      env_splitext = (\<lambda>p. (takeWhile (\<lambda>c. c \<noteq> CHR ''.'') p, dropWhile (\<lambda>c. c \<noteq> CHR ''.'') p)),
      env_join = (\<lambda>a b. a @ ''/'' @ b),
      env_cluster = (\<lambda>p. Inl (PyException ''UnidentifiedImageError'' ''cannot identify image file'')),
      env_texture = (\<lambda>p. Inl (PyException ''ValueError'' (''Could not load image from '' @ p))),
      env_shapes = (\<lambda>p. Inl (PyException ''ValueError'' (''Could not load image from '' @ p)))\<rparr>"

definition env_missing :: environment where
  "env_missing = env_unreadable\<lparr>env_exists := (\<lambda>p. False)\<rparr>"

definition env_readonly :: environment where
  "env_readonly =
     env_unreadable\<lparr>env_makedirs := (\<lambda>p. Some (PyException ''PermissionError'' ''Permission denied''))\<rparr>"

definition env_unlistable :: environment where
  "env_unlistable =
     env_unreadable\<lparr>env_listdir := (\<lambda>p. Inl (PyException ''PermissionError'' ''Permission denied''))\<rparr>"

text \<open>The result of \<open>analyze_image\<close> on an image that exists and that no library can
  read: every analyser has returned its own default.\<close>

definition unreadable_results :: analysis_results where
  "unreadable_results =
     \<lparr>ar_image_path = ''photo.png'',
      ar_color_analysis =
        \<lparr>ca_hex_colors = Some [], ca_rgb_values = Some [], ca_percentages = Some []\<rparr>,
      ar_texture_analysis =
        \<lparr>ta_texture_type = Some ''unknown'', ta_roughness = Some 0, ta_uniformity = Some 0,
         ta_contrast = Some 0, ta_directionality = Some 0, ta_pattern_type = Some ''unknown'',
         ta_lbp_histogram = None, ta_hog_features = None\<rparr>,
      ar_shape_analysis = failed_shape_analysis,
      ar_model_parameters =
        \<lparr>mp_type = ''generic'',
         mp_dimensions = \<lparr>dim_width = 1, dim_height = 1, dim_depth = 1\<rparr>,
         mp_colors = [], mp_materials = [''Plastic''], mp_details = []\<rparr>,
      ar_output_directory = ''./output/photo'',
      ar_visualization_files = []\<rparr>"

section \<open>Lemmas\<close>

lemma fold_min_Min: "fold min xs (x::real) = Min (insert x (set xs))"
  using Min.set_eq_fold [of x xs] by simp

lemma fold_max_Max: "fold max xs (x::real) = Max (insert x (set xs))"
  using Max.set_eq_fold [of x xs] by simp

lemma bounding_box_aspect:
  assumes "contour \<noteq> []"
  shows "\<exists>b. bounding_box contour = Inr b \<and> aspect_of_box b = bbox_aspect_ratio contour"
proof (cases contour)
  case Nil
  with assms show ?thesis by simp
next
  case (Cons p ps)
  then show ?thesis
    by (simp add: aspect_of_box_def bbox_aspect_ratio_def fold_min_Min fold_max_Max Let_def)
qed

section \<open>Texture classification\<close>

text \<open>
  C6. For every tuple of texture metrics (roughness, uniformity, contrast,
  directionality) the texture type is: roughness < 10 gives Smooth when
  uniformity > 0.5 and Matte otherwise; otherwise roughness < 30 gives Striated when
  directionality > 0.5 and Textured otherwise; otherwise Rough when contrast > 0.3 and
  Coarse otherwise.
\<close>

theorem determine_texture_type_rules:
  "(roughness < 10 \<and> uniformity_val > 0.5 \<longrightarrow>
      determine_texture_type roughness uniformity_val contrast directionality = ''Smooth'') \<and>
   (roughness < 10 \<and> \<not> uniformity_val > 0.5 \<longrightarrow>
      determine_texture_type roughness uniformity_val contrast directionality = ''Matte'') \<and>
   (\<not> roughness < 10 \<and> roughness < 30 \<and> directionality > 0.5 \<longrightarrow>
      determine_texture_type roughness uniformity_val contrast directionality = ''Striated'') \<and>
   (\<not> roughness < 10 \<and> roughness < 30 \<and> \<not> directionality > 0.5 \<longrightarrow>
      determine_texture_type roughness uniformity_val contrast directionality = ''Textured'') \<and>
   (\<not> roughness < 30 \<and> contrast > 0.3 \<longrightarrow>
      determine_texture_type roughness uniformity_val contrast directionality = ''Rough'') \<and>
   (\<not> roughness < 30 \<and> \<not> contrast > 0.3 \<longrightarrow>
      determine_texture_type roughness uniformity_val contrast directionality = ''Coarse'')"
  by (simp add: determine_texture_type_def)

theorem determine_texture_type_rules_witness:
  "determine_texture_type 5 0.8 0.1 0.2 = ''Smooth'' \<and>
   determine_texture_type 5 0.5 0.1 0.2 = ''Matte'' \<and>
   determine_texture_type 10 0.8 0.1 0.7 = ''Striated'' \<and>
   determine_texture_type 20 0.8 0.1 0.5 = ''Textured'' \<and>
   determine_texture_type 30 0.8 0.4 0.7 = ''Rough'' \<and>
   determine_texture_type 45 0.8 0.3 0.7 = ''Coarse''"
  using determine_texture_type_rules [of 5 "0.8" "0.1" "0.2"]
    determine_texture_type_rules [of 5 "0.5" "0.1" "0.2"]
    determine_texture_type_rules [of 10 "0.8" "0.1" "0.7"]
    determine_texture_type_rules [of 20 "0.8" "0.1" "0.5"]
    determine_texture_type_rules [of 30 "0.8" "0.4" "0.7"]
    determine_texture_type_rules [of 45 "0.8" "0.3" "0.7"]
  by simp

section \<open>Shape classification\<close>

text \<open>
  C5. For every contour polygon, shape classification follows this precedence:
  compactness > 0.8 gives Circle whatever the vertex count; otherwise 3 vertices give
  Triangle, 4 give Square when the bounding-box aspect ratio lies strictly between 0.9
  and 1.1 and Rectangle otherwise, 5 give Pentagon, 6 give Hexagon, 7 to 14 give
  Polygon, and any other vertex count gives Organic. The classification never raises.
\<close>

theorem identify_shape_precedence:
  "(compactness > 0.8 \<longrightarrow> identify_shape contour compactness = Inr ''Circle'') \<and>
   (\<not> compactness > 0.8 \<and> length contour = 3 \<longrightarrow>
      identify_shape contour compactness = Inr ''Triangle'') \<and>
   (\<not> compactness > 0.8 \<and> length contour = 4 \<and>
      0.9 < bbox_aspect_ratio contour \<and> bbox_aspect_ratio contour < 1.1 \<longrightarrow>
      identify_shape contour compactness = Inr ''Square'') \<and>
   (\<not> compactness > 0.8 \<and> length contour = 4 \<and>
      \<not> (0.9 < bbox_aspect_ratio contour \<and> bbox_aspect_ratio contour < 1.1) \<longrightarrow>
      identify_shape contour compactness = Inr ''Rectangle'') \<and>
   (\<not> compactness > 0.8 \<and> length contour = 5 \<longrightarrow>
      identify_shape contour compactness = Inr ''Pentagon'') \<and>
   (\<not> compactness > 0.8 \<and> length contour = 6 \<longrightarrow>
      identify_shape contour compactness = Inr ''Hexagon'') \<and>
   (\<not> compactness > 0.8 \<and> 7 \<le> length contour \<and> length contour \<le> 14 \<longrightarrow>
      identify_shape contour compactness = Inr ''Polygon'') \<and>
   (\<not> compactness > 0.8 \<and> (length contour < 3 \<or> 14 < length contour) \<longrightarrow>
      identify_shape contour compactness = Inr ''Organic'')"
proof -
  have four: "length contour = 4 \<Longrightarrow>
      \<exists>b. bounding_box contour = Inr b \<and> aspect_of_box b = bbox_aspect_ratio contour"
    by (rule bounding_box_aspect) auto
  show ?thesis
    using four by (auto simp add: identify_shape_def Let_def)
qed

theorem identify_shape_precedence_witness:
  "identify_shape [(0, 0), (0, 10), (10, 10), (10, 0)] 0.9 = Inr ''Circle'' \<and>
   identify_shape [(0, 0), (0, 10), (10, 5)] 0.6 = Inr ''Triangle'' \<and>
   identify_shape [(0, 0), (0, 10), (10, 10), (10, 0)] 0.78 = Inr ''Square'' \<and>
   identify_shape [(0, 0), (0, 10), (20, 10), (20, 0)] 0.7 = Inr ''Rectangle'' \<and>
   identify_shape [(0, 0), (0, 10), (5, 15), (10, 10), (10, 0)] 0.7 = Inr ''Pentagon'' \<and>
   identify_shape [(0, 0), (0, 10), (5, 15), (10, 10), (10, 0), (5, -5)] 0.8 = Inr ''Hexagon'' \<and>
   identify_shape [(0, 0), (0, 5), (0, 10), (5, 15), (10, 10), (10, 0), (5, -5)] 0.5
     = Inr ''Polygon'' \<and>
   identify_shape [(0, 0), (0, 10)] 0 = Inr ''Organic''"
proof -
  have sq: "bbox_aspect_ratio [(0, 0), (0, 10), (10, 10), (10, 0)] = 1"
    by (simp add: bbox_aspect_ratio_def)
  have re: "bbox_aspect_ratio [(0, 0), (0, 10), (20, 10), (20, 0)] = 2"
    by (simp add: bbox_aspect_ratio_def)
  show ?thesis
    using identify_shape_precedence [of "0.9" "[(0, 0), (0, 10), (10, 10), (10, 0)]"]
      identify_shape_precedence [of "0.6" "[(0, 0), (0, 10), (10, 5)]"]
      identify_shape_precedence [of "0.78" "[(0, 0), (0, 10), (10, 10), (10, 0)]"]
      identify_shape_precedence [of "0.7" "[(0, 0), (0, 10), (20, 10), (20, 0)]"]
      identify_shape_precedence [of "0.7" "[(0, 0), (0, 10), (5, 15), (10, 10), (10, 0)]"]
      identify_shape_precedence [of "0.8" "[(0, 0), (0, 10), (5, 15), (10, 10), (10, 0), (5, -5)]"]
      identify_shape_precedence
        [of "0.5" "[(0, 0), (0, 5), (0, 10), (5, 15), (10, 10), (10, 0), (5, -5)]"]
      identify_shape_precedence [of 0 "[(0, 0), (0, 10)]"]
    by (simp add: sq re)
qed

section \<open>Model form type\<close>

text \<open>
  C7. For every shape profile the model form type is derived purely from the list of
  dominant shapes by a fixed precedence: Circle or Circular gives cylindrical; else
  Rectangle or Square gives box; else Triangle gives pyramid; else Polygon gives
  polyhedron; else Organic gives organic; otherwise generic. In particular the list
  [Circle] yields cylindrical and the list [Rectangle] yields box.
\<close>

theorem determine_model_type_precedence:
  "determine_model_type sa =
     first_match form_type_rules (get_or (sa_dominant_shapes sa) [''Unknown'']) \<and>
   (sa_dominant_shapes sa = Some [''Circle''] \<longrightarrow> determine_model_type sa = ''cylindrical'') \<and>
   (sa_dominant_shapes sa = Some [''Rectangle''] \<longrightarrow> determine_model_type sa = ''box'')"
  by (simp add: determine_model_type_def form_type_rules_def get_or_def Let_def)

theorem determine_model_type_precedence_witness:
  "determine_model_type (example_shape_analysis\<lparr>sa_dominant_shapes := Some [''Circle'']\<rparr>)
     = ''cylindrical'' \<and>
   determine_model_type (example_shape_analysis\<lparr>sa_dominant_shapes := Some [''Rectangle'']\<rparr>)
     = ''box''"
  using determine_model_type_precedence
      [of "example_shape_analysis\<lparr>sa_dominant_shapes := Some [''Circle'']\<rparr>"]
    determine_model_type_precedence
      [of "example_shape_analysis\<lparr>sa_dominant_shapes := Some [''Rectangle'']\<rparr>"]
  by (simp add: form_type_rules_def get_or_def)

section \<open>Model dimensions\<close>

lemma py_max_key_keep: "list_all (\<lambda>x. key x \<le> key best) xs \<Longrightarrow> py_max_key key best xs = best"
  by (induction xs) auto

lemma py_max_key_first_max:
  "list_all (\<lambda>x. key x < key m) pre \<Longrightarrow> key best < key m \<Longrightarrow>
   list_all (\<lambda>x. key x \<le> key m) post \<Longrightarrow>
   py_max_key key best (pre @ m # post) = m"
proof (induction pre arbitrary: best)
  case Nil
  then show ?case by (simp add: py_max_key_keep)
next
  case (Cons p pre)
  let ?b = "if key p > key best then p else best"
  have "key ?b < key m" using Cons.prems by simp
  moreover have "list_all (\<lambda>x. key x < key m) pre" using Cons.prems by simp
  ultimately have "py_max_key key ?b (pre @ m # post) = m"
    using Cons.prems(3) by (intro Cons.IH)
  then show ?case by simp
qed

lemma largest_shape_selected:
  assumes "list_all (\<lambda>x. area_key x < area_key largest) pre"
    and "list_all (\<lambda>x. area_key x \<le> area_key largest) post"
    and "pre @ largest # post = s # rest"
  shows "py_max_key area_key s rest = largest"
proof (cases pre)
  case Nil
  with assms show ?thesis by (simp add: py_max_key_keep)
next
  case (Cons p pre')
  with assms have "s = p" "rest = pre' @ largest # post" by simp_all
  moreover have "area_key p < area_key largest"
    "list_all (\<lambda>x. area_key x < area_key largest) pre'"
    using assms(1) Cons by simp_all
  ultimately show ?thesis using assms(2) by (simp add: py_max_key_first_max)
qed

text \<open>
  C8. For every shape profile whose list of shape records is not empty, let the
  largest-area record be the record whose \<open>area\<close> field (0 when absent) is exceeded by
  no record of the list and reached by no earlier one, and let r > 0 be its aspect
  ratio (1 when absent). Then: if r > 1, width = min(2, r) and height = 1, else
  width = 1 and height = min(2, 1/r); and depth = width when that record's type is
  Circle or Square, otherwise depth = width * 0.5. With no shape records the
  dimensions are the unit cube.
\<close>

theorem generate_dimensions_rule:
  "(sa_shape_details sa = None \<or> sa_shape_details sa = Some [] \<longrightarrow>
      generate_dimensions sa = \<lparr>dim_width = 1, dim_height = 1, dim_depth = 1\<rparr>) \<and>
   (sa_shape_details sa = Some (pre @ largest # post) \<and>
    list_all (\<lambda>x. (case sr_area x of None \<Rightarrow> 0 | Some a \<Rightarrow> a)
                    < (case sr_area largest of None \<Rightarrow> 0 | Some a \<Rightarrow> a)) pre \<and>
    list_all (\<lambda>x. (case sr_area x of None \<Rightarrow> 0 | Some a \<Rightarrow> a)
                    \<le> (case sr_area largest of None \<Rightarrow> 0 | Some a \<Rightarrow> a)) post \<and>
    r = (case sr_aspect_ratio largest of None \<Rightarrow> 1 | Some v \<Rightarrow> v) \<and> 0 < r \<longrightarrow>
      dim_width (generate_dimensions sa) = (if r > 1 then min 2 r else 1) \<and>
      dim_height (generate_dimensions sa) = (if r > 1 then 1 else min 2 (1 / r)) \<and>
      dim_depth (generate_dimensions sa) =
        (if sr_type largest = Some ''Circle'' \<or> sr_type largest = Some ''Square''
         then dim_width (generate_dimensions sa)
         else dim_width (generate_dimensions sa) * 0.5))"
proof (intro conjI impI)
  assume "sa_shape_details sa = None \<or> sa_shape_details sa = Some []"
  then show "generate_dimensions sa = \<lparr>dim_width = 1, dim_height = 1, dim_depth = 1\<rparr>"
    by (auto simp add: generate_dimensions_def get_or_def)
next
  assume a: "sa_shape_details sa = Some (pre @ largest # post) \<and>
    list_all (\<lambda>x. (case sr_area x of None \<Rightarrow> 0 | Some a \<Rightarrow> a)
                    < (case sr_area largest of None \<Rightarrow> 0 | Some a \<Rightarrow> a)) pre \<and>
    list_all (\<lambda>x. (case sr_area x of None \<Rightarrow> 0 | Some a \<Rightarrow> a)
                    \<le> (case sr_area largest of None \<Rightarrow> 0 | Some a \<Rightarrow> a)) post \<and>
    r = (case sr_aspect_ratio largest of None \<Rightarrow> 1 | Some v \<Rightarrow> v) \<and> 0 < r"
  obtain s rest where sr: "pre @ largest # post = s # rest" by (cases pre) auto
  have sel: "py_max_key area_key s rest = largest"
    using a sr
    by (intro largest_shape_selected [of largest pre post]) (simp_all add: area_key_def get_or_def)
  have details: "sa_shape_details sa = Some (s # rest)" using a sr by simp
  have r: "r = (case sr_aspect_ratio largest of None \<Rightarrow> 1 | Some v \<Rightarrow> v)" "0 < r"
    using a by simp_all
  show "dim_width (generate_dimensions sa) = (if r > 1 then min 2 r else 1)"
    using r by (simp add: generate_dimensions_def details sel get_or_def Let_def)
  show "dim_height (generate_dimensions sa) = (if r > 1 then 1 else min 2 (1 / r))"
    using r by (simp add: generate_dimensions_def details sel get_or_def Let_def)
  show "dim_depth (generate_dimensions sa) =
        (if sr_type largest = Some ''Circle'' \<or> sr_type largest = Some ''Square''
         then dim_width (generate_dimensions sa)
         else dim_width (generate_dimensions sa) * 0.5)"
    using r
    by (simp add: generate_dimensions_def details sel get_or_def Let_def split: option.splits)
qed

theorem generate_dimensions_rule_witness:
  "generate_dimensions failed_shape_analysis
     = \<lparr>dim_width = 1, dim_height = 1, dim_depth = 1\<rparr> \<and>
   dim_width (generate_dimensions two_shapes) = 1.5 \<and>
   dim_height (generate_dimensions two_shapes) = 1 \<and>
   dim_depth (generate_dimensions two_shapes) = 0.75 \<and>
   dim_width (generate_dimensions one_circle) = 1 \<and>
   dim_height (generate_dimensions one_circle) = 2 \<and>
   dim_depth (generate_dimensions one_circle) = 1"
proof -
  let ?circle = "\<lparr>sr_type = Some ''Circle'', sr_vertices = None, sr_area = Some 100,
              sr_perimeter = None, sr_compactness = None, sr_aspect_ratio = Some 0.5,
              sr_position = None\<rparr>"
  let ?rectangle = "\<lparr>sr_type = Some ''Rectangle'', sr_vertices = None, sr_area = Some 10000,
              sr_perimeter = None, sr_compactness = None, sr_aspect_ratio = Some 1.5,
              sr_position = None\<rparr>"
  have none: "sa_shape_details failed_shape_analysis = Some []"
    by (simp add: failed_shape_analysis_def)
  have two: "sa_shape_details two_shapes = Some ([?circle] @ ?rectangle # [])"
    by (simp add: two_shapes_def)
  have one: "sa_shape_details one_circle = Some ([] @ ?circle # [])"
    by (simp add: one_circle_def)
  show ?thesis
    using generate_dimensions_rule [of failed_shape_analysis] none
      generate_dimensions_rule [of two_shapes "[?circle]" ?rectangle "[]" "1.5"] two
      generate_dimensions_rule [of one_circle "[]" ?circle "[]" "0.5"] one
    by simp
qed

section \<open>Model parameters on an internal error\<close>

lemmas eval_hex = process_colors_def get_or_def find_closest_color_name_def color_names_def
  lstrip_hash_def parse_rgb_def py_int16_def hex_digit_value_def py_isspace_def

text \<open>
  \<open>int(s, 16)\<close> on slices of at most two characters: hexadecimal pairs, one digit
  with white space or a sign, and what is refused, among it a digit next to one of
  the separators 28 to 31.
\<close>

lemma py_int16_examples:
  "py_int16 ''ff'' = Some 255 \<and> py_int16 ''3F'' = Some 63 \<and> py_int16 ''-f'' = Some (- 15) \<and>
   py_int16 '' f'' = Some 15 \<and> py_int16 [CHR ''f'', CHR 0x0A] = Some 15 \<and>
   py_int16 [CHR 0x85, CHR ''1''] = Some 1 \<and> py_int16 [CHR ''1'', CHR 0xA0] = Some 1 \<and>
   py_int16 [CHR ''1'', CHR 0x1F] = None \<and> py_int16 [CHR 0x1C, CHR ''1''] = None \<and>
   py_int16 ''0x'' = None \<and> py_int16 ''1_'' = None \<and> py_int16 ''_1'' = None \<and>
   py_int16 ''re'' = None \<and> py_int16 ''d'' = Some 13 \<and> py_int16 [] = None"
  by (simp add: py_int16_def hex_digit_value_def py_isspace_def)

lemma parse_rgb_error: "parse_rgb h = Inl e \<Longrightarrow> e = value_error"
  by (auto simp add: parse_rgb_def split: option.splits)

text \<open>The loop over the colour table cannot raise: every key of the table is a colour.\<close>

lemma closest_loop_total:
  "list_all (\<lambda>kv. \<exists>v. parse_rgb (lstrip_hash (fst kv)) = Inr v) color_map \<Longrightarrow>
   \<exists>name. closest_loop rgb color_map min_distance closest_name = Inr name"
proof (induction color_map arbitrary: min_distance closest_name)
  case Nil
  show ?case by simp
next
  case (Cons kv color_map)
  obtain hex_code name where kv: "kv = (hex_code, name)" by (cases kv)
  from Cons.prems kv obtain r2 g2 b2 where
    p: "parse_rgb (lstrip_hash hex_code) = Inr (r2, g2, b2)"
    by auto
  from Cons.prems have rest:
    "list_all (\<lambda>kv. \<exists>v. parse_rgb (lstrip_hash (fst kv)) = Inr v) color_map" by simp
  obtain r g b where rgb: "rgb = (r, g, b)" by (cases rgb)
  show ?case
    using Cons.IH [OF rest] by (simp add: kv p rgb Let_def)
qed

lemma color_names_parse:
  "list_all (\<lambda>kv. \<exists>v. parse_rgb (lstrip_hash (fst kv)) = Inr v) color_names"
  by (simp add: color_names_def lstrip_hash_def parse_rgb_def py_int16_def hex_digit_value_def
      py_isspace_def)

lemma find_closest_raises:
  "(\<exists>e. find_closest_color_name h color_names = Inl e) \<longleftrightarrow>
   (map_of color_names h = None \<and> parse_rgb (lstrip_hash h) = Inl value_error)"
proof (cases "map_of color_names h")
  case (Some name)
  then show ?thesis by (simp add: find_closest_color_name_def)
next
  case None
  show ?thesis
  proof (cases "parse_rgb (lstrip_hash h)")
    case (Inl e)
    then have "e = value_error" by (rule parse_rgb_error)
    with None Inl show ?thesis by (simp add: find_closest_color_name_def)
  next
    case (Inr rgb)
    obtain name where "closest_loop rgb color_names None ''Custom'' = Inr name"
      using closest_loop_total [OF color_names_parse] by blast
    with None Inr show ?thesis by (simp add: find_closest_color_name_def)
  qed
qed

lemma find_closest_error:
  "find_closest_color_name h color_names = Inl e \<Longrightarrow> e = value_error"
proof -
  assume a: "find_closest_color_name h color_names = Inl e"
  then have "map_of color_names h = None \<and> parse_rgb (lstrip_hash h) = Inl value_error"
    using find_closest_raises by blast
  with a show ?thesis by (simp add: find_closest_color_name_def)
qed

lemma process_loop_raises:
  "(\<exists>e. process_loop hs = Inl e) \<longleftrightarrow>
   list_ex (\<lambda>h. map_of color_names h = None \<and> parse_rgb (lstrip_hash h) = Inl value_error) hs"
proof (induction hs)
  case Nil
  show ?case by simp
next
  case (Cons h hs)
  show ?case
  proof (cases "find_closest_color_name h color_names")
    case (Inl e)
    then have "map_of color_names h = None \<and> parse_rgb (lstrip_hash h) = Inl value_error"
      using find_closest_raises by blast
    with Inl show ?thesis by simp
  next
    case (Inr name)
    then have "\<not> (map_of color_names h = None \<and> parse_rgb (lstrip_hash h) = Inl value_error)"
      using find_closest_raises [of h] by auto
    with Inr Cons.IH show ?thesis by (auto split: sum.splits)
  qed
qed

lemma process_loop_error: "process_loop hs = Inl e \<Longrightarrow> e = value_error"
  by (induction hs arbitrary: e) (auto split: sum.splits dest: find_closest_error)

lemma determine_model_type_not_basic_cube: "determine_model_type sa \<noteq> ''basic_cube''"
  by (simp add: determine_model_type_def Let_def)

text \<open>
  C3, as the code has it. For every input on which the body of
  \<open>generate_model_parameters\<close> raises, the function returns (and does not raise) the
  default parameter set with type \<open>basic_cube\<close>, dimensions (1, 1, 1), the single colour
  \<open>#CCCCCC\<close> named Gray, the materials [Plastic] and no details. The body raises, with
  the \<open>ValueError\<close> of \<open>int\<close>, exactly when one of the first three hex colours is no key
  of the colour table and, stripped of its leading \<open>#\<close>, does not start with three
  pairs that \<open>int(pair, 16)\<close> accepts; and the type \<open>basic_cube\<close> is returned in that
  case only.
\<close>

theorem generate_model_parameters_fallback:
  "(model_parameters_body shape_analysis color_analysis texture_analysis = Inl e \<longrightarrow>
      e = value_error \<and>
      generate_model_parameters shape_analysis color_analysis texture_analysis =
        \<lparr>mp_type = ''basic_cube'',
         mp_dimensions = \<lparr>dim_width = 1, dim_height = 1, dim_depth = 1\<rparr>,
         mp_colors = [(''#CCCCCC'', ''Gray'')],
         mp_materials = [''Plastic''],
         mp_details = []\<rparr>) \<and>
   ((\<exists>e. model_parameters_body shape_analysis color_analysis texture_analysis = Inl e) =
      list_ex (\<lambda>h. map_of color_names h = None \<and> parse_rgb (lstrip_hash h) = Inl value_error)
        (take 3 (case ca_hex_colors color_analysis of None \<Rightarrow> [] | Some hs \<Rightarrow> hs))) \<and>
   ((mp_type (generate_model_parameters shape_analysis color_analysis texture_analysis)
       = ''basic_cube'') =
      (\<exists>e. model_parameters_body shape_analysis color_analysis texture_analysis = Inl e))"
proof (intro conjI impI)
  assume a: "model_parameters_body shape_analysis color_analysis texture_analysis = Inl e"
  then have "process_colors color_analysis = Inl e"
    by (auto simp add: model_parameters_body_def split: sum.splits)
  then show "e = value_error"
    unfolding process_colors_def Let_def by (rule process_loop_error)
  show "generate_model_parameters shape_analysis color_analysis texture_analysis =
        \<lparr>mp_type = ''basic_cube'',
         mp_dimensions = \<lparr>dim_width = 1, dim_height = 1, dim_depth = 1\<rparr>,
         mp_colors = [(''#CCCCCC'', ''Gray'')],
         mp_materials = [''Plastic''],
         mp_details = []\<rparr>"
    using a by (simp add: generate_model_parameters_def)
next
  have "(\<exists>e. model_parameters_body shape_analysis color_analysis texture_analysis = Inl e) =
        (\<exists>e. process_colors color_analysis = Inl e)"
    by (auto simp add: model_parameters_body_def split: sum.splits)
  also have "\<dots> = list_ex (\<lambda>h. map_of color_names h = None \<and>
                                 parse_rgb (lstrip_hash h) = Inl value_error)
        (take 3 (case ca_hex_colors color_analysis of None \<Rightarrow> [] | Some hs \<Rightarrow> hs))"
    unfolding process_colors_def Let_def get_or_def by (rule process_loop_raises)
  finally show "(\<exists>e. model_parameters_body shape_analysis color_analysis texture_analysis = Inl e) =
      list_ex (\<lambda>h. map_of color_names h = None \<and> parse_rgb (lstrip_hash h) = Inl value_error)
        (take 3 (case ca_hex_colors color_analysis of None \<Rightarrow> [] | Some hs \<Rightarrow> hs))" .
next
  show "(mp_type (generate_model_parameters shape_analysis color_analysis texture_analysis)
       = ''basic_cube'') =
      (\<exists>e. model_parameters_body shape_analysis color_analysis texture_analysis = Inl e)"
  proof (cases "model_parameters_body shape_analysis color_analysis texture_analysis")
    case (Inl e)
    then show ?thesis by (simp add: generate_model_parameters_def)
  next
    case (Inr p)
    then have "mp_type p = determine_model_type shape_analysis"
      by (auto simp add: model_parameters_body_def split: sum.splits)
    with Inr show ?thesis
      by (simp add: generate_model_parameters_def determine_model_type_not_basic_cube)
  qed
qed

theorem generate_model_parameters_fallback_witness:
  "model_parameters_body example_shape_analysis named_palette example_texture_analysis
     = Inl value_error \<and>
   generate_model_parameters example_shape_analysis named_palette example_texture_analysis =
     \<lparr>mp_type = ''basic_cube'',
      mp_dimensions = \<lparr>dim_width = 1, dim_height = 1, dim_depth = 1\<rparr>,
      mp_colors = [(''#CCCCCC'', ''Gray'')],
      mp_materials = [''Plastic''],
      mp_details = []\<rparr> \<and>
   model_parameters_body example_shape_analysis separator_palette example_texture_analysis
     = Inl value_error \<and>
   mp_type (generate_model_parameters example_shape_analysis separator_palette
              example_texture_analysis) = ''basic_cube'' \<and>
   mp_type (generate_model_parameters example_shape_analysis example_color_analysis
              example_texture_analysis) = ''cylindrical''"
proof -
  have named: "model_parameters_body example_shape_analysis named_palette
      example_texture_analysis = Inl value_error"
    by (simp add: model_parameters_body_def named_palette_def eval_hex)
  have separator: "model_parameters_body example_shape_analysis separator_palette
      example_texture_analysis = Inl value_error"
    by (simp add: model_parameters_body_def separator_palette_def eval_hex)
  have example: "mp_type (generate_model_parameters example_shape_analysis example_color_analysis
              example_texture_analysis) = ''cylindrical''"
    by (simp add: generate_model_parameters_def model_parameters_body_def
        example_color_analysis_def example_shape_analysis_def determine_model_type_def eval_hex)
  show ?thesis
    using named separator example
      generate_model_parameters_fallback
        [of example_shape_analysis named_palette example_texture_analysis value_error]
      generate_model_parameters_fallback
        [of example_shape_analysis separator_palette example_texture_analysis value_error]
    by simp
qed

text \<open>
  The claim as the specification states it, with form type \<open>generic\<close> in the default,
  fails: on the palette [red], whose entry is no hexadecimal colour, the body raises
  and the type returned is \<open>basic_cube\<close>.
\<close>

theorem generate_model_parameters_generic_counterexample:
  "model_parameters_body example_shape_analysis named_palette example_texture_analysis
     = Inl value_error \<and>
   mp_type (generate_model_parameters example_shape_analysis named_palette
              example_texture_analysis) = ''basic_cube'' \<and>
   mp_type (generate_model_parameters example_shape_analysis named_palette
              example_texture_analysis) \<noteq> ''generic''"
  by (simp add: generate_model_parameters_def model_parameters_body_def named_palette_def
      eval_hex)

section \<open>Colour percentages\<close>

lemma fold_max_ge: "x \<in> set xs \<Longrightarrow> x \<le> fold max xs (a::nat)"
proof -
  assume "x \<in> set xs"
  have "fold max xs a = Max (insert a (set xs))"
    using Max.set_eq_fold [of a xs] by simp
  moreover have "x \<le> Max (insert a (set xs))" using \<open>x \<in> set xs\<close> by simp
  ultimately show ?thesis by simp
qed

lemma sum_bincount: "sum_list (bincount labels) = length labels"
proof (cases "labels = []")
  case True
  then show ?thesis by (simp add: bincount_def)
next
  case False
  let ?m = "fold max labels 0"
  have sub: "set labels \<subseteq> {0..<Suc ?m}"
    using fold_max_ge [of _ labels 0] by (auto simp: less_Suc_eq_le)
  have "sum_list (bincount labels) = sum (count_list labels) (set [0..<Suc ?m])"
    using False by (simp add: bincount_def interv_sum_list_conv_sum_set_nat)
  also have "\<dots> = length labels"
    using sum_count_set [OF sub] by simp
  finally show ?thesis .
qed

lemma sum_scaled_counts:
  "sum_list (map (\<lambda>c. real c / n * 100) cs) = real (sum_list cs) / n * 100"
  by (induction cs) (simp_all add: add_divide_distrib distrib_right)

lemma sum_percentages:
  assumes "labels \<noteq> []"
  shows "sum_list (color_percentages_of labels) = 100"
  unfolding color_percentages_of_def sum_scaled_counts sum_bincount
  using assms by simp

lemma percentages_nonneg: "list_all (\<lambda>p. 0 \<le> p) (color_percentages_of labels)"
  by (simp add: color_percentages_of_def list_all_iff)

lemmas eval_colors = extract_colors_def red_blue_fit_def color_percentages_of_def bincount_def
  argsort_def hex_color_of_def format_02x_def hex_digits.simps hex_char_def Let_def upt_conv_Cons
  sort_key_def

text \<open>
  C9. For every clustering on which colour extraction succeeds, with at least one
  clustered pixel (every pixel carries exactly one cluster label), each returned
  percentage is non-negative and the percentages sum to 100.
\<close>

theorem percentages_nonneg_sum_100:
  assumes "extract_colors (Inr kmeans) = (hex_colors, Some info)"
    and "km_labels kmeans \<noteq> []"
  shows "list_all (\<lambda>p. 0 \<le> p) (ci_percentages info) \<and> sum_list (ci_percentages info) = 100"
proof -
  have "ci_percentages info = color_percentages_of (km_labels kmeans)"
    using assms(1) by (auto simp add: extract_colors_def Let_def split: if_splits)
  then show ?thesis
    using percentages_nonneg [of "km_labels kmeans"] sum_percentages [OF assms(2)] by simp
qed

theorem percentages_nonneg_sum_100_witness:
  "extract_colors (Inr red_blue_fit) =
     ([''#0000ff'', ''#ff0000''],
      Some \<lparr>ci_hex = [''#ff0000'', ''#0000ff''], ci_rgb = [(255, 0, 0), (0, 0, 255)],
            ci_percentages = [40, 60]\<rparr>) \<and>
   km_labels red_blue_fit \<noteq> [] \<and>
   list_all (\<lambda>p. 0 \<le> p) [40, 60 :: real] \<and> sum_list [40, 60 :: real] = 100"
proof -
  have e: "extract_colors (Inr red_blue_fit) =
     ([''#0000ff'', ''#ff0000''],
      Some \<lparr>ci_hex = [''#ff0000'', ''#0000ff''], ci_rgb = [(255, 0, 0), (0, 0, 255)],
            ci_percentages = [40, 60]\<rparr>)"
    by (simp add: eval_colors)
  have n: "km_labels red_blue_fit \<noteq> []" by (simp add: red_blue_fit_def)
  show ?thesis using percentages_nonneg_sum_100 [OF e n] e n by simp
qed

section \<open>Order of the palette\<close>

text \<open>
  C1. The palette of \<open>get_color_palette\<close> on two red and three blue pixels: the hex
  colours are sorted by descending percentage, blue (60 percent) first, while the RGB
  values and the percentages stay in the order of the cluster labels, red (40 percent)
  first. Index 0 of the three lists does not refer to one colour.
\<close>

theorem palette_lists_misaligned:
  "get_color_palette (\<lambda>p. None) (Inr red_blue_fit) False None =
     Inr \<lparr>ca_hex_colors = Some [''#0000ff'', ''#ff0000''],
          ca_rgb_values = Some [(255, 0, 0), (0, 0, 255)],
          ca_percentages = Some [40, 60]\<rparr>"
  by (simp add: get_color_palette_def eval_colors)

section \<open>Dominant shapes\<close>

lemma map_of_count_shape:
  "map_of (count_shape t acc) k =
     (if k = t then Some (case map_of acc t of None \<Rightarrow> 1 | Some n \<Rightarrow> n + 1) else map_of acc k)"
  by (induction acc) auto

lemma keys_count_shape:
  "set (map fst (count_shape t acc)) = insert t (set (map fst acc))"
proof (induction acc)
  case Nil
  show ?case by simp
next
  case (Cons a acc)
  obtain k n where a: "a = (k, n)" by (cases a)
  show ?case
  proof (cases "k = t")
    case True
    with a show ?thesis by auto
  next
    case False
    with a Cons.IH show ?thesis by auto
  qed
qed

lemma distinct_count_shape:
  "distinct (map fst acc) \<Longrightarrow> distinct (map fst (count_shape t acc))"
proof (induction acc)
  case Nil
  show ?case by simp
next
  case (Cons a acc)
  obtain k n where a: "a = (k, n)" by (cases a)
  show ?case
  proof (cases "k = t")
    case True
    with Cons.prems a show ?thesis by simp
  next
    case False
    have "k \<notin> set (map fst (count_shape t acc))"
      unfolding keys_count_shape using Cons.prems a False by simp
    with Cons a False show ?thesis by simp
  qed
qed

lemma distinct_fold_count_shape:
  "distinct (map fst acc) \<Longrightarrow> distinct (map fst (fold count_shape ts acc))"
  by (induction ts arbitrary: acc) (simp_all add: distinct_count_shape)

lemma map_of_fold_count_shape:
  "map_of (fold count_shape ts acc) k =
     (if count_list ts k = 0 then map_of acc k
      else Some (count_list ts k + (case map_of acc k of None \<Rightarrow> 0 | Some n \<Rightarrow> n)))"
  by (induction ts arbitrary: acc) (auto simp add: map_of_count_shape split: option.splits)

lemma counted_entry:
  assumes "(k, n) \<in> set (fold count_shape ts [])"
  shows "n = count_list ts k"
proof -
  have "distinct (map fst (fold count_shape ts []))"
    by (rule distinct_fold_count_shape) simp
  with assms have "map_of (fold count_shape ts []) k = Some n" by simp
  then show ?thesis
    by (simp add: map_of_fold_count_shape split: if_splits)
qed

lemma repeated_labels:
  assumes "l \<in> set (map fst (filter (\<lambda>(shape_type, count). count > 1)
                      (take 3 (sorted_by_count_desc (fold count_shape ts [])))))"
  shows "1 < count_list ts l"
proof -
  from assms obtain n where
    mem: "(l, n) \<in> set (take 3 (sorted_by_count_desc (fold count_shape ts [])))" and n: "1 < n"
    by auto
  have "(l, n) \<in> set (sorted_by_count_desc (fold count_shape ts []))"
    using mem set_take_subset by fastforce
  then have "(l, n) \<in> set (fold count_shape ts [])"
    by (simp add: sorted_by_count_desc_def)
  then have "n = count_list ts l" by (rule counted_entry)
  with n show ?thesis by simp
qed

lemma dominant_labels:
  assumes "determine_dominant_shapes shape_info line_info circle_info = Inr ds"
    and "those (map sr_type (si_shapes shape_info)) = Some shape_types"
  shows "list_all (\<lambda>l. l \<in> set [''Geometric'', ''Circular'', ''Complex'', ''Organic''] \<or>
                       1 < count_list shape_types l) ds"
  unfolding list_all_iff
  using assms repeated_labels [of _ shape_types]
  by (auto simp add: determine_dominant_shapes_def Let_def split: if_splits)

lemma determine_dominant_shapes_nonempty:
  "determine_dominant_shapes shape_info line_info circle_info = Inr ds \<Longrightarrow> ds \<noteq> []"
  by (auto simp add: determine_dominant_shapes_def Let_def split: option.splits if_splits)

text \<open>The records built by the loop of \<open>_analyze_contours\<close> all carry a type.\<close>

lemma analyze_loop_typed:
  "analyze_loop contours shapes covered_area = Inr (shapes', covered') \<Longrightarrow>
   those (map sr_type shapes) \<noteq> None \<Longrightarrow> those (map sr_type shapes') \<noteq> None"
proof (induction contours arbitrary: shapes covered_area)
  case Nil
  then show ?case by simp
next
  case (Cons c cs)
  show ?case
  proof (cases "cm_points c < 5 \<or> cm_area c < 100")
    case True
    with Cons.prems(1) have "analyze_loop cs shapes covered_area = Inr (shapes', covered')"
      by (auto split: if_splits)
    then show ?thesis using Cons.prems(2) by (rule Cons.IH)
  next
    case False
    with Cons.prems(1) obtain t r where
      next_call: "analyze_loop cs (shapes @ [r]) (covered_area + cm_area c) = Inr (shapes', covered')"
      and r: "sr_type r = Some t"
      by (auto split: sum.splits if_splits)
    have "those (map sr_type (shapes @ [r])) \<noteq> None"
      using Cons.prems(2) r by (induction shapes) (auto split: option.splits)
    with next_call show ?thesis by (rule Cons.IH)
  qed
qed

lemma analyze_contours_typed:
  assumes "analyze_contours contours image_shape = Inr shape_info"
  shows "\<exists>shape_types. those (map sr_type (si_shapes shape_info)) = Some shape_types"
proof -
  from assms obtain shapes covered where
    loop: "analyze_loop contours [] 0 = Inr (shapes, covered)" and si: "si_shapes shape_info = shapes"
    by (auto simp add: analyze_contours_def Let_def split: sum.splits if_splits)
  have "those (map sr_type shapes) \<noteq> None"
    using loop by (rule analyze_loop_typed) simp
  with si show ?thesis by auto
qed

lemmas eval_shapes = detect_shapes_def analyze_contours_def identify_shape_def
  determine_dominant_shapes_def detect_lines_def detect_circles_def sorted_by_count_desc_def
  failed_shape_analysis_def get_or_def Let_def

text \<open>
  C10. For every outcome of the image libraries, the list of dominant shapes returned
  by \<open>detect_shapes\<close> is present and not empty. On the success path the aggregation of
  \<open>_determine_dominant_shapes\<close> does not raise on the records of \<open>_analyze_contours\<close>
  and always ends with at least one label, each of them Geometric, Circular, Complex
  or Organic, or the type of more than one detected shape; on the failure path the list
  is [Unknown].
\<close>

theorem detect_shapes_dominant_nonempty:
  "(\<exists>ds. sa_dominant_shapes (detect_shapes measured) = Some ds \<and> ds \<noteq> []) \<and>
   sa_dominant_shapes (detect_shapes (Inl e)) = Some [''Unknown''] \<and>
   (analyze_contours contours image_shape = Inr shape_info \<longrightarrow>
      (\<exists>ds shape_types.
         determine_dominant_shapes shape_info line_info circle_info = Inr ds \<and> ds \<noteq> [] \<and>
         those (map sr_type (si_shapes shape_info)) = Some shape_types \<and>
         list_all (\<lambda>l. l \<in> set [''Geometric'', ''Circular'', ''Complex'', ''Organic''] \<or>
                        1 < count_list shape_types l) ds))"
proof (intro conjI impI)
  show "\<exists>ds. sa_dominant_shapes (detect_shapes measured) = Some ds \<and> ds \<noteq> []"
  proof (cases measured)
    case (Inl x)
    then show ?thesis by (simp add: detect_shapes_def failed_shape_analysis_def)
  next
    case (Inr m)
    show ?thesis
    proof (cases "analyze_contours (sm_contours m) (512, 512)")
      case (Inl x)
      with Inr show ?thesis by (simp add: detect_shapes_def failed_shape_analysis_def)
    next
      case si: (Inr si)
      show ?thesis
      proof (cases "determine_dominant_shapes si (detect_lines (sm_line_peaks m))
                      (detect_circles (sm_circles m))")
        case (Inl x)
        with Inr si show ?thesis
          by (simp add: detect_shapes_def Let_def failed_shape_analysis_def)
      next
        case ds: (Inr ds)
        then have "ds \<noteq> []" by (rule determine_dominant_shapes_nonempty)
        with Inr si ds show ?thesis by (simp add: detect_shapes_def Let_def)
      qed
    qed
  qed
  show "sa_dominant_shapes (detect_shapes (Inl e)) = Some [''Unknown'']"
    by (simp add: detect_shapes_def failed_shape_analysis_def)
next
  assume ok: "analyze_contours contours image_shape = Inr shape_info"
  then obtain shape_types where
    typed: "those (map sr_type (si_shapes shape_info)) = Some shape_types"
    using analyze_contours_typed by blast
  then have "\<exists>ds. determine_dominant_shapes shape_info line_info circle_info = Inr ds"
    by (simp add: determine_dominant_shapes_def Let_def)
  then obtain ds where
    ds: "determine_dominant_shapes shape_info line_info circle_info = Inr ds"
    by blast
  have "ds \<noteq> []" using ds by (rule determine_dominant_shapes_nonempty)
  moreover have "list_all (\<lambda>l. l \<in> set [''Geometric'', ''Circular'', ''Complex'', ''Organic''] \<or>
                        1 < count_list shape_types l) ds"
    using ds typed by (rule dominant_labels)
  ultimately show "\<exists>ds shape_types.
         determine_dominant_shapes shape_info line_info circle_info = Inr ds \<and> ds \<noteq> [] \<and>
         those (map sr_type (si_shapes shape_info)) = Some shape_types \<and>
         list_all (\<lambda>l. l \<in> set [''Geometric'', ''Circular'', ''Complex'', ''Organic''] \<or>
                        1 < count_list shape_types l) ds"
    using ds typed by blast
qed

theorem detect_shapes_dominant_nonempty_witness:
  "sa_dominant_shapes (detect_shapes (Inr closed_rectangles)) = Some [''Pentagon''] \<and>
   sa_dominant_shapes (detect_shapes (Inr no_edges)) = Some [''Organic''] \<and>
   sa_dominant_shapes
     (detect_shapes (Inl (PyException ''ValueError'' ''Could not load image from photo.png'')))
     = Some [''Unknown''] \<and>
   analyze_contours [] (512, 512)
     = Inr \<lparr>si_shapes = [], si_complexity = ''Low'', si_distribution = ''Sparse''\<rparr> \<and>
   determine_dominant_shapes
     \<lparr>si_shapes = [], si_complexity = ''Low'', si_distribution = ''Sparse''\<rparr>
     (detect_lines []) (detect_circles None) = Inr [''Organic'']"
proof -
  have two: "sa_dominant_shapes (detect_shapes (Inr closed_rectangles)) = Some [''Pentagon'']"
    using pi_less_4 by (simp add: closed_rectangles_def eval_shapes)
  have none: "sa_dominant_shapes (detect_shapes (Inr no_edges)) = Some [''Organic'']"
    by (simp add: no_edges_def eval_shapes)
  have ok: "analyze_contours [] (512, 512)
     = Inr \<lparr>si_shapes = [], si_complexity = ''Low'', si_distribution = ''Sparse''\<rparr>"
    by (simp add: analyze_contours_def)
  show ?thesis
    using two none ok
      detect_shapes_dominant_nonempty
        [of "Inr closed_rectangles" "PyException ''ValueError'' ''Could not load image from photo.png''"
            "[]" "(512, 512)" "\<lparr>si_shapes = [], si_complexity = ''Low'', si_distribution = ''Sparse''\<rparr>"
            "detect_lines []" "detect_circles None"]
    by (simp add: eval_shapes)
qed

section \<open>Failures of the orchestrator\<close>

lemma palette_ok:
  assumes "mk d = None"
  shows "\<exists>p. get_color_palette mk fitted sv (Some d) = Inr p"
  using assms by (simp add: get_color_palette_def get_or_def split: prod.splits)

lemmas eval_analysis = analyze_image_def analyze_image_body_def env_unreadable_def
  env_missing_def env_readonly_def env_unlistable_def get_color_palette_def extract_colors_def
  analyze_texture_def detect_shapes_def failed_shape_analysis_def generate_model_parameters_def
  model_parameters_body_def process_colors_def determine_model_type_def generate_dimensions_def
  suggest_materials_def generate_details_def get_visualization_files_def endswith_def
  get_or_def Let_def

text \<open>
  C2, as the code has it. For every image path and every exception that reaches the
  handler of \<open>analyze_image\<close> (a missing file, a failure to create the output directory
  or to list it), the function does not raise but returns the record with \<open>error\<close> (the
  message), \<open>image_path\<close> and \<open>status\<close> equal to failed. When the file exists and the
  directory can be created and listed, the result is an ordinary analysis record,
  whatever the image libraries raise: each analyser catches its own exceptions.
\<close>

theorem analyze_image_failure_record:
  "(analyze_image_body env output_dir image_path gv = Inl e \<longrightarrow>
      analyze_image env output_dir image_path gv =
        Failed \<lparr>fl_error = exc_msg e, fl_image_path = image_path, fl_status = ''failed''\<rparr>) \<and>
   (\<not> env_exists env image_path \<longrightarrow>
      analyze_image env output_dir image_path gv =
        Failed \<lparr>fl_error = ''Image file not found: '' @ image_path, fl_image_path = image_path,
                fl_status = ''failed''\<rparr>) \<and>
   (env_exists env image_path \<and>
    env_makedirs env (env_join env output_dir (fst (env_splitext env (env_basename env image_path))))
      = Some e \<longrightarrow>
      analyze_image env output_dir image_path gv =
        Failed \<lparr>fl_error = exc_msg e, fl_image_path = image_path, fl_status = ''failed''\<rparr>) \<and>
   (env_exists env image_path \<and>
    env_makedirs env (env_join env output_dir (fst (env_splitext env (env_basename env image_path))))
      = None \<and> gv \<and>
    env_listdir env (env_join env output_dir (fst (env_splitext env (env_basename env image_path))))
      = Inl e \<longrightarrow>
      analyze_image env output_dir image_path gv =
        Failed \<lparr>fl_error = exc_msg e, fl_image_path = image_path, fl_status = ''failed''\<rparr>) \<and>
   (env_exists env image_path \<and>
    env_makedirs env (env_join env output_dir (fst (env_splitext env (env_basename env image_path))))
      = None \<and> \<not> gv \<longrightarrow>
      (\<exists>r. analyze_image env output_dir image_path gv = Analysis r)) \<and>
   (env_exists env image_path \<and>
    env_makedirs env (env_join env output_dir (fst (env_splitext env (env_basename env image_path))))
      = None \<and>
    env_listdir env (env_join env output_dir (fst (env_splitext env (env_basename env image_path))))
      = Inr files \<longrightarrow>
      (\<exists>r. analyze_image env output_dir image_path gv = Analysis r))"
proof -
  let ?d = "env_join env output_dir (fst (env_splitext env (env_basename env image_path)))"
  have pal: "env_makedirs env ?d = None \<Longrightarrow>
      \<exists>p. get_color_palette (env_makedirs env) (env_cluster env image_path) gv (Some ?d) = Inr p"
    by (rule palette_ok)
  show ?thesis
    using pal
    by (auto simp add: analyze_image_def analyze_image_body_def Let_def get_visualization_files_def)
qed

theorem analyze_image_failure_record_witness:
  "analyze_image_body env_missing ''./output'' ''photo.png'' True =
     Inl (PyException ''FileNotFoundError'' ''Image file not found: photo.png'') \<and>
   analyze_image env_missing ''./output'' ''photo.png'' True =
     Failed \<lparr>fl_error = ''Image file not found: photo.png'', fl_image_path = ''photo.png'',
             fl_status = ''failed''\<rparr> \<and>
   analyze_image env_readonly ''./output'' ''photo.png'' True =
     Failed \<lparr>fl_error = ''Permission denied'', fl_image_path = ''photo.png'',
             fl_status = ''failed''\<rparr> \<and>
   analyze_image env_unlistable ''./output'' ''photo.png'' True =
     Failed \<lparr>fl_error = ''Permission denied'', fl_image_path = ''photo.png'',
             fl_status = ''failed''\<rparr> \<and>
   (\<exists>r. analyze_image env_unreadable ''./output'' ''photo.png'' False = Analysis r) \<and>
   (\<exists>r. analyze_image env_unreadable ''./output'' ''photo.png'' True = Analysis r)"
proof -
  have body: "analyze_image_body env_missing ''./output'' ''photo.png'' True =
     Inl (PyException ''FileNotFoundError'' ''Image file not found: photo.png'')"
    by (simp add: analyze_image_body_def env_missing_def env_unreadable_def)
  have missing: "\<not> env_exists env_missing ''photo.png''"
    by (simp add: env_missing_def env_unreadable_def)
  have readonly: "env_exists env_readonly ''photo.png'' \<and>
      env_makedirs env_readonly
        (env_join env_readonly ''./output''
           (fst (env_splitext env_readonly (env_basename env_readonly ''photo.png''))))
      = Some (PyException ''PermissionError'' ''Permission denied'')"
    by (simp add: env_readonly_def env_unreadable_def)
  have unlistable: "env_exists env_unlistable ''photo.png'' \<and>
      env_makedirs env_unlistable
        (env_join env_unlistable ''./output''
           (fst (env_splitext env_unlistable (env_basename env_unlistable ''photo.png''))))
      = None \<and> True \<and>
      env_listdir env_unlistable
        (env_join env_unlistable ''./output''
           (fst (env_splitext env_unlistable (env_basename env_unlistable ''photo.png''))))
      = Inl (PyException ''PermissionError'' ''Permission denied'')"
    by (simp add: env_unlistable_def env_unreadable_def)
  have unreadable: "env_exists env_unreadable ''photo.png'' \<and>
      env_makedirs env_unreadable
        (env_join env_unreadable ''./output''
           (fst (env_splitext env_unreadable (env_basename env_unreadable ''photo.png''))))
      = None \<and>
      env_listdir env_unreadable
        (env_join env_unreadable ''./output''
           (fst (env_splitext env_unreadable (env_basename env_unreadable ''photo.png''))))
      = Inr [''photo_model.json'']"
    by (simp add: env_unreadable_def)
  show ?thesis
    using body missing readonly unlistable unreadable
      analyze_image_failure_record [of env_missing "''./output''" "''photo.png''" True
        "PyException ''FileNotFoundError'' ''Image file not found: photo.png''" "[]"]
      analyze_image_failure_record [of env_readonly "''./output''" "''photo.png''" True
        "PyException ''PermissionError'' ''Permission denied''" "[]"]
      analyze_image_failure_record [of env_unlistable "''./output''" "''photo.png''" True
        "PyException ''PermissionError'' ''Permission denied''" "[]"]
      analyze_image_failure_record [of env_unreadable "''./output''" "''photo.png''" False
        "PyException ''PermissionError'' ''Permission denied''" "[]"]
      analyze_image_failure_record [of env_unreadable "''./output''" "''photo.png''" True
        "PyException ''PermissionError'' ''Permission denied''" "[''photo_model.json'']"]
    by simp
qed

text \<open>
  The claim as the specification states it counts an unreadable image among the
  exceptions that yield the failed record. It does not: \<open>photo.png\<close> exists, every
  image library raises on it, and \<open>analyze_image\<close> returns an analysis record made of
  the analysers' defaults, with neither \<open>error\<close> nor \<open>status\<close>.
\<close>

theorem analyze_image_unreadable_counterexample:
  "env_exists env_unreadable ''photo.png'' \<and>
   env_cluster env_unreadable ''photo.png''
     = Inl (PyException ''UnidentifiedImageError'' ''cannot identify image file'') \<and>
   env_texture env_unreadable ''photo.png''
     = Inl (PyException ''ValueError'' ''Could not load image from photo.png'') \<and>
   env_shapes env_unreadable ''photo.png''
     = Inl (PyException ''ValueError'' ''Could not load image from photo.png'') \<and>
   analyze_image env_unreadable ''./output'' ''photo.png'' True = Analysis unreadable_results"
  by (simp add: eval_analysis unreadable_results_def)

end
